theory Spec2Isabelle
  imports Complex_Main "HOL-Library.Multiset" "HOL-Library.List_Lexorder" "HOL-Library.Char_ord"
begin

section \<open>Data model (src/models/fund.py)\<close>

text \<open>
  \<^verbatim>\<open>FundData\<close> is a pydantic model. Python floats are modelled as the real numbers they
  denote (no rounding, no NaN or infinities); \<^verbatim>\<open>Optional[T]\<close> is \<open>T option\<close>. The
  field \<^verbatim>\<open>scale\<close> is a required float, so it is never \<^verbatim>\<open>None\<close> in a validated
  object. Strings are byte lists (UTF-8).
\<close>

record FundData =
  code :: string
  name :: string
  management_fee :: real
  custody_fee :: real
  subscription_fee :: "real option"
  redemption_fee :: "real option"
  sales_service_fee :: "real option"
  transaction_cost :: "real option"
  other_fees :: "real option"
  total_annual_fee :: "real option"
  scale :: real
  yearly_return :: "real option"
  return_3year :: "real option"
  return_5year :: "real option"
  establish_date :: "string option"
  benchmark :: "string option"
  beats_benchmark :: "bool option"
  beats_benchmark_amount :: "real option"
  fund_type :: "string option"

text \<open>Exceptions that escape the modelled functions.\<close>

datatype error = TypeError | ValueError | AttributeError | ValidationError

section \<open>Relative scoring (src/models/fund.py, lines 276-539)\<close>

text \<open>
  The source names start with an underscore (\<^verbatim>\<open>_score_fees_relative\<close>, ...); the
  underscore is dropped here. \<^verbatim>\<open>sum(1 for x in xs if P x)\<close> is the length of the
  filtered list.
\<close>

text \<open>
  \<^verbatim>\<open>sum(1 for v in values if v >= x) / len(values)\<close> and
  \<^verbatim>\<open>sum(1 for v in values if v <= x) / len(values)\<close>: the value of the local variable
  \<^verbatim>\<open>percentile\<close>. Every call site has checked that the list is not empty.
\<close>

definition fraction_ge :: "real \<Rightarrow> real list \<Rightarrow> real" where
  "fraction_ge x values = real (length (filter (\<lambda>v. v \<ge> x) values)) / real (length values)"

definition fraction_le :: "real \<Rightarrow> real list \<Rightarrow> real" where
  "fraction_le x values = real (length (filter (\<lambda>v. v \<le> x) values)) / real (length values)"

text \<open>
  The five-band tables that turn a percentile into points are written inline in each
  source function; each is a definition of its own here (\<open>fees_band\<close> is lines
  362-371, \<open>scale_band\<close> 401-406, \<open>short_term_band\<close> 430-439, \<open>long_term_band\<close>
  478-487, \<open>benchmark_band\<close> 300-309, \<open>stability_band\<close> 528-537).
\<close>

definition fees_band :: "real \<Rightarrow> real" where
  "fees_band percentile =
     (if percentile \<ge> 0.9 then 13 + (percentile - 0.9) / 0.1 * 2
      else if percentile \<ge> 0.7 then 11 + (percentile - 0.7) / 0.2 * 1
      else if percentile \<ge> 0.3 then 9 + (percentile - 0.3) / 0.4 * 1
      else if percentile \<ge> 0.1 then 6 + (percentile - 0.1) / 0.2 * 2
      else max 0 (5 * percentile / 0.1))"

definition score_fees_relative :: "FundData \<Rightarrow> FundData list \<Rightarrow> real" where
  "score_fees_relative fund all_funds =
     (let fees = List.map_filter total_annual_fee all_funds in
      case total_annual_fee fund of
        None \<Rightarrow> 8
      | Some fund_fee \<Rightarrow>
          if fees = [] then 8
          else
            let percentile = fraction_ge fund_fee fees
            in fees_band percentile)"

definition scale_band :: "real \<Rightarrow> real" where
  "scale_band percentile =
     (if percentile \<ge> 0.7 then 12 + (percentile - 0.7) / 0.3 * 3
      else if percentile \<ge> 0.3 then 9 + (percentile - 0.3) / 0.4 * 2
      else (percentile / 0.3) * 8)"

definition score_scale_relative :: "FundData \<Rightarrow> FundData list \<Rightarrow> real" where
  "score_scale_relative fund all_funds =
     (let scales = map scale all_funds in
      if scales = [] then 8
      else
        let ideal_scale = 26;
            deviations = map (\<lambda>s. \<bar>s - ideal_scale\<bar>) scales;
            fund_deviation = \<bar>scale fund - ideal_scale\<bar>;
            percentile = fraction_ge fund_deviation deviations
        in scale_band percentile)"

definition short_term_band :: "real \<Rightarrow> real" where
  "short_term_band percentile =
     (if percentile \<ge> 0.9 then 18 + (percentile - 0.9) / 0.1 * 2
      else if percentile \<ge> 0.7 then 15 + (percentile - 0.7) / 0.2 * 2
      else if percentile \<ge> 0.3 then 12 + (percentile - 0.3) / 0.4 * 2
      else if percentile \<ge> 0.1 then 8 + (percentile - 0.1) / 0.2 * 3
      else max 0 (7 * percentile / 0.1))"

definition score_short_term_performance_relative :: "FundData \<Rightarrow> FundData list \<Rightarrow> real" where
  "score_short_term_performance_relative fund all_funds =
     (let returns = List.map_filter yearly_return all_funds in
      case yearly_return fund of
        None \<Rightarrow> 10
      | Some fund_ret \<Rightarrow>
          if returns = [] then 10
          else
            let percentile = fraction_le fund_ret returns
            in short_term_band percentile)"

text \<open>
  \<^verbatim>\<open>(1 + r / 100) ** (1/5)\<close>: for a non-negative base this is the fifth root. For a
  negative base (a five-year return below -100) Python's float power with a fractional
  exponent returns a \<^verbatim>\<open>complex\<close>; the value then stays complex through \<^verbatim>\<open>- 1\<close> and
  \<^verbatim>\<open>* 100\<close>, and the first ordering comparison it takes part in raises
  \<^verbatim>\<open>TypeError\<close>. Only the type of such a value matters, so it carries no payload.
\<close>

datatype pynum = PyFloat real | PyComplex

definition annualized_pct :: "real \<Rightarrow> pynum" where
  "annualized_pct r =
     (let base = 1 + r / 100 in
      if base < 0 then PyComplex else PyFloat ((root 5 base - 1) * 100))"

text \<open>\<^verbatim>\<open>sum(1 for r in annualized_returns if r <= fund_return_pct)\<close>, left to right.\<close>

fun count_le :: "pynum list \<Rightarrow> pynum \<Rightarrow> error + nat" where
  "count_le [] x = Inr 0"
| "count_le (PyFloat a # rs) (PyFloat b) =
     (case count_le rs (PyFloat b) of
        Inl e \<Rightarrow> Inl e
      | Inr n \<Rightarrow> Inr ((if a \<le> b then 1 else 0) + n))"
| "count_le (r # rs) x = Inl TypeError"

definition long_term_band :: "real \<Rightarrow> real" where
  "long_term_band percentile =
     (if percentile \<ge> 0.9 then 22 + (percentile - 0.9) / 0.1 * 3
      else if percentile \<ge> 0.7 then 18 + (percentile - 0.7) / 0.2 * 3
      else if percentile \<ge> 0.3 then 14 + (percentile - 0.3) / 0.4 * 3
      else if percentile \<ge> 0.1 then 10 + (percentile - 0.1) / 0.2 * 3
      else max 0 (9 * percentile / 0.1))"

definition score_long_term_performance_relative :: "FundData \<Rightarrow> FundData list \<Rightarrow> error + real" where
  "score_long_term_performance_relative fund all_funds =
     (let annualized_returns = map annualized_pct (List.map_filter return_5year all_funds) in
      if annualized_returns = [] then Inr 12
      else
        case return_5year fund of
          None \<Rightarrow> Inr 12
        | Some r5 \<Rightarrow>
            (case count_le annualized_returns (annualized_pct r5) of
               Inl e \<Rightarrow> Inl e
             | Inr n \<Rightarrow>
                 let percentile = real n / real (length annualized_returns)
                 in Inr (long_term_band percentile)))"

definition benchmark_band :: "real \<Rightarrow> real" where
  "benchmark_band percentile =
     (if percentile \<ge> 0.9 then 9 + (percentile - 0.9) / 0.1 * 1
      else if percentile \<ge> 0.7 then 7 + (percentile - 0.7) / 0.2 * 1
      else if percentile \<ge> 0.3 then 5 + (percentile - 0.3) / 0.4 * 1
      else if percentile \<ge> 0.1 then 2 + (percentile - 0.1) / 0.2 * 2
      else max 0 (percentile / 0.1))"

definition score_beats_benchmark_relative :: "FundData \<Rightarrow> FundData list \<Rightarrow> real" where
  "score_beats_benchmark_relative fund all_funds =
     (let excess_returns = List.map_filter beats_benchmark_amount all_funds in
      case beats_benchmark_amount fund of
        None \<Rightarrow> 5
      | Some fund_excess \<Rightarrow>
          if excess_returns = [] then 5
          else
            let percentile = fraction_le fund_excess excess_returns
            in benchmark_band percentile)"

subsection \<open>Stability: dates and the clock\<close>

text \<open>
  \<^verbatim>\<open>datetime.strptime(s, "%Y-%m-%d")\<close> is a library function; the scoring code only
  depends on whether it raises and, if not, on the day it returns. It is a parameter
  \<open>strptime\<close> of the model: \<open>None\<close> when it raises \<^verbatim>\<open>ValueError\<close>, otherwise the
  day number (proleptic Gregorian ordinal) of the parsed date at midnight.

  \<^verbatim>\<open>datetime.now()\<close> is read again at every age computation. The clock is a sequence
  of readings, in microseconds since midnight of day 0; the state threaded through the
  code is the number of readings taken so far.
\<close>

type_synonym parser = "string \<Rightarrow> int option"
type_synonym clock = "nat \<Rightarrow> int"

definition usec_per_day :: int where
  "usec_per_day = 86400000000"

text \<open>\<^verbatim>\<open>(now - date_obj).days / 365.25\<close>; \<^verbatim>\<open>timedelta.days\<close> is the floor of the difference.\<close>

definition age_years :: "int \<Rightarrow> int \<Rightarrow> real" where
  "age_years now day = real_of_int ((now - day * usec_per_day) div usec_per_day) / 365.25"

text \<open>
  The loop that fills \<^verbatim>\<open>ages\<close> (lines 504-511). A fund with no date or an empty date
  is passed over; so is one whose date makes \<^verbatim>\<open>strptime\<close> raise (bare \<^verbatim>\<open>except: pass\<close>),
  before the clock is read.
\<close>

fun ages_loop :: "parser \<Rightarrow> clock \<Rightarrow> FundData list \<Rightarrow> nat \<Rightarrow> real list \<times> nat" where
  "ages_loop strptime now [] k = ([], k)"
| "ages_loop strptime now (f # fs) k =
     (case establish_date f of
        None \<Rightarrow> ages_loop strptime now fs k
      | Some s \<Rightarrow>
          if s = [] then ages_loop strptime now fs k
          else
            (case strptime s of
               None \<Rightarrow> ages_loop strptime now fs k
             | Some day \<Rightarrow>
                 (case ages_loop strptime now fs (Suc k) of
                    (ages, k') \<Rightarrow> (age_years (now k) day # ages, k'))))"

definition stability_band :: "real \<Rightarrow> real" where
  "stability_band percentile =
     (if percentile \<ge> 0.9 then 12 + (percentile - 0.9) / 0.1 * 3
      else if percentile \<ge> 0.7 then 10 + (percentile - 0.7) / 0.2 * 1
      else if percentile \<ge> 0.3 then 8 + (percentile - 0.3) / 0.4 * 1
      else if percentile \<ge> 0.1 then 5 + (percentile - 0.1) / 0.2 * 2
      else max 0 (4 * percentile / 0.1))"

definition score_stability_relative ::
  "parser \<Rightarrow> clock \<Rightarrow> FundData \<Rightarrow> FundData list \<Rightarrow> nat \<Rightarrow> real \<times> nat" where
  "score_stability_relative strptime now fund all_funds k =
     (case ages_loop strptime now all_funds k of
        (ages, k1) \<Rightarrow>
          if ages = [] then (8, k1)
          else
            (case establish_date fund of
               None \<Rightarrow> (8, k1)
             | Some s \<Rightarrow>
                 if s = [] then (8, k1)
                 else
                   (case strptime s of
                      None \<Rightarrow> (8, k1)
                    | Some day \<Rightarrow>
                        let fund_age = age_years (now k1) day;
                            percentile = fraction_le fund_age ages in
                        (stability_band percentile, Suc k1))))"

subsection \<open>The composite score (lines 75-132)\<close>

text \<open>
  The breakdown is a dict with six fixed keys; the keys are the constructors of
  \<open>dimension\<close>, in the order the source inserts them (fee reasonableness, scale
  fitness, short-term performance (YTD), long-term performance (5 years), beats
  benchmark, stability).
\<close>

datatype dimension = Fee | Scale | ShortTerm | LongTerm | Benchmark | Stability

type_synonym breakdown = "dimension \<rightharpoonup> real"

definition score_fund ::
  "parser \<Rightarrow> clock \<Rightarrow> FundData \<Rightarrow> FundData list option \<Rightarrow> nat
     \<Rightarrow> error + ((real \<times> breakdown) \<times> nat)" where
  "score_fund strptime now fund all_funds_opt k =
     (let scores = Map.empty;
          total_score = 0;
          all_funds = (case all_funds_opt of None \<Rightarrow> [fund] | Some fs \<Rightarrow> fs);
          fee_score = score_fees_relative fund all_funds;
          scores = scores(Fee \<mapsto> fee_score);
          total_score = total_score + fee_score;
          scale_score = score_scale_relative fund all_funds;
          scores = scores(Scale \<mapsto> scale_score);
          total_score = total_score + scale_score;
          short_term_score = score_short_term_performance_relative fund all_funds;
          scores = scores(ShortTerm \<mapsto> short_term_score);
          total_score = total_score + short_term_score
      in
        case score_long_term_performance_relative fund all_funds of
          Inl e \<Rightarrow> Inl e
        | Inr long_term_score \<Rightarrow>
            let scores = scores(LongTerm \<mapsto> long_term_score);
                total_score = total_score + long_term_score;
                benchmark_score = score_beats_benchmark_relative fund all_funds;
                scores = scores(Benchmark \<mapsto> benchmark_score);
                total_score = total_score + benchmark_score
            in
              (case score_stability_relative strptime now fund all_funds k of
                 (stability_score, k') \<Rightarrow>
                   let scores = scores(Stability \<mapsto> stability_score);
                       total_score = total_score + stability_score
                   in Inr ((total_score, scores), k')))"

section \<open>A concrete parser and clock for evaluation\<close>

text \<open>
  The theorems below hold for every parser. To evaluate the model on concrete funds,
  \<open>strptime_ymd\<close> models the library's \<^verbatim>\<open>strptime\<close> for the format
  \<^verbatim>\<open>"%Y-%m-%d"\<close> on ASCII input: four digits, a dash, a month matching
  \<^verbatim>\<open>1[0-2]|0[1-9]|[1-9]\<close>, a dash, a day matching
  \<^verbatim>\<open>3[0-1]|[1-2]\d|0[1-9]|[1-9]| [1-9]\<close>, nothing after it, and a date that exists
  (year at least 1). The result is the date's ordinal (\<^verbatim>\<open>date.toordinal()\<close>).
\<close>

definition digit_val :: "char \<Rightarrow> int option" where
  "digit_val c =
     (let n = (of_char c :: nat) in if 48 \<le> n \<and> n \<le> 57 then Some (int n - 48) else None)"

definition is_leap :: "int \<Rightarrow> bool" where
  "is_leap y = (y mod 4 = 0 \<and> (y mod 400 = 0 \<or> y mod 100 \<noteq> 0))"

definition days_in_month :: "int \<Rightarrow> int \<Rightarrow> int" where
  "days_in_month y m =
     (if m = 2 then (if is_leap y then 29 else 28)
      else if m = 4 \<or> m = 6 \<or> m = 9 \<or> m = 11 then 30 else 31)"

definition days_before_year :: "int \<Rightarrow> int" where
  "days_before_year y = (y - 1) * 365 + (y - 1) div 4 - (y - 1) div 100 + (y - 1) div 400"

definition days_before_month :: "int \<Rightarrow> int \<Rightarrow> int" where
  "days_before_month y m =
     [0, 31, 59, 90, 120, 151, 181, 212, 243, 273, 304, 334] ! nat (m - 1)
       + (if m > 2 \<and> is_leap y then 1 else 0)"

definition ymd_to_ordinal :: "int \<Rightarrow> int \<Rightarrow> int \<Rightarrow> int option" where
  "ymd_to_ordinal y m d =
     (if 1 \<le> y \<and> 1 \<le> m \<and> m \<le> 12 \<and> 1 \<le> d \<and> d \<le> days_in_month y m
      then Some (days_before_year y + days_before_month y m + d) else None)"

fun month_field :: "string \<Rightarrow> int option" where
  "month_field [a] =
     (case digit_val a of Some x \<Rightarrow> if 1 \<le> x then Some x else None | None \<Rightarrow> None)"
| "month_field [a, b] =
     (case (digit_val a, digit_val b) of
        (Some x, Some y) \<Rightarrow>
          if x = 1 \<and> y \<le> 2 then Some (10 + y)
          else if x = 0 \<and> 1 \<le> y then Some y else None
      | _ \<Rightarrow> None)"
| "month_field s = None"

fun day_field :: "string \<Rightarrow> int option" where
  "day_field [a] =
     (case digit_val a of Some x \<Rightarrow> if 1 \<le> x then Some x else None | None \<Rightarrow> None)"
| "day_field [a, b] =
     (case (digit_val a, digit_val b) of
        (Some x, Some y) \<Rightarrow>
          if x = 3 \<and> y \<le> 1 then Some (30 + y)
          else if x = 1 \<or> x = 2 then Some (10 * x + y)
          else if x = 0 \<and> 1 \<le> y then Some y else None
      | (None, Some y) \<Rightarrow> if a = CHR 0x20 \<and> 1 \<le> y then Some y else None
      | _ \<Rightarrow> None)"
| "day_field s = None"

definition strptime_ymd :: parser where
  "strptime_ymd s =
     (case s of
        y1 # y2 # y3 # y4 # dash # rest \<Rightarrow>
          (case (digit_val y1, digit_val y2, digit_val y3, digit_val y4) of
             (Some a, Some b, Some c, Some d) \<Rightarrow>
               if dash \<noteq> CHR ''-'' then None
               else
                 (case dropWhile (\<lambda>c. c \<noteq> CHR ''-'') rest of
                    [] \<Rightarrow> None
                  | _ # ds \<Rightarrow>
                      (case (month_field (takeWhile (\<lambda>c. c \<noteq> CHR ''-'') rest), day_field ds) of
                         (Some m, Some d') \<Rightarrow>
                           ymd_to_ordinal (1000 * a + 100 * b + 10 * c + d) m d'
                       | _ \<Rightarrow> None))
           | _ \<Rightarrow> None)
      | _ \<Rightarrow> None)"

text \<open>The reading of a clock at \<open>h\<close> hours into day \<open>d\<close>.\<close>

definition at_day_hour :: "int \<Rightarrow> int \<Rightarrow> int" where
  "at_day_hour d h = d * usec_per_day + h * 3600000000"

text \<open>
  Three funds used in the worked examples. \<open>fund_b\<close> discloses no five-year return
  and no benchmark return; \<open>fund_c\<close> has a date that does not parse.
\<close>

definition fund_a :: FundData where
  "fund_a = \<lparr>code = ''510300'', name = ''Fund A'', management_fee = 0.005,
     custody_fee = 0.001, subscription_fee = Some 0, redemption_fee = Some 0,
     sales_service_fee = Some 0, transaction_cost = Some 0.0003, other_fees = Some 0.0002,
     total_annual_fee = Some 0.0065, scale = 30, yearly_return = Some 12.5,
     return_3year = Some 20, return_5year = Some 40, establish_date = Some ''2012-05-04'',
     benchmark = Some ''CSI 300'', beats_benchmark = Some True,
     beats_benchmark_amount = Some 1.5, fund_type = Some ''ETF''\<rparr>"

definition fund_b :: FundData where
  "fund_b = \<lparr>code = ''159919'', name = ''Fund B'', management_fee = 0.0015,
     custody_fee = 0.0005, subscription_fee = Some 0, redemption_fee = Some 0,
     sales_service_fee = Some 0, transaction_cost = Some 0, other_fees = Some 0,
     total_annual_fee = Some 0.002, scale = 5, yearly_return = Some 8,
     return_3year = Some 35, return_5year = None, establish_date = Some ''2020-03-20'',
     benchmark = Some [], beats_benchmark = None,
     beats_benchmark_amount = None, fund_type = Some ''ETF''\<rparr>"

definition fund_c :: FundData where
  "fund_c = \<lparr>code = ''000001'', name = ''Fund C'', management_fee = 0.012,
     custody_fee = 0.002, subscription_fee = Some 0, redemption_fee = Some 0,
     sales_service_fee = Some 0.004, transaction_cost = Some 0, other_fees = Some 0,
     total_annual_fee = Some 0.018, scale = 80, yearly_return = Some (-3),
     return_3year = None, return_5year = Some 10, establish_date = Some ''20/03/2019'',
     benchmark = Some ''CSI 500'', beats_benchmark = Some False,
     beats_benchmark_amount = Some (-2.25), fund_type = Some ''OTC''\<rparr>"

section \<open>Bounds of the band tables and of the six factor scores\<close>

lemma percentile_bounds:
  "0 \<le> real (length (filter P xs)) / real (length xs)"
  "real (length (filter P xs)) / real (length xs) \<le> 1"
proof -
  show "0 \<le> real (length (filter P xs)) / real (length xs)" by simp
  have "length (filter P xs) \<le> length xs" by (rule length_filter_le)
  then show "real (length (filter P xs)) / real (length xs) \<le> 1"
    by (cases "length xs = 0") (simp_all add: divide_le_eq_1)
qed

lemma fraction_ge_bounds: "0 \<le> fraction_ge x xs" "fraction_ge x xs \<le> 1"
  unfolding fraction_ge_def by (rule percentile_bounds)+

lemma fraction_le_bounds: "0 \<le> fraction_le x xs" "fraction_le x xs \<le> 1"
  unfolding fraction_le_def by (rule percentile_bounds)+

lemma fees_band_bounds: "0 \<le> p \<Longrightarrow> p \<le> 1 \<Longrightarrow> 0 \<le> fees_band p \<and> fees_band p \<le> 15"
  by (simp add: fees_band_def)
lemma scale_band_bounds: "0 \<le> p \<Longrightarrow> p \<le> 1 \<Longrightarrow> 0 \<le> scale_band p \<and> scale_band p \<le> 15"
  by (simp add: scale_band_def)
lemma short_term_band_bounds: "0 \<le> p \<Longrightarrow> p \<le> 1 \<Longrightarrow> 0 \<le> short_term_band p \<and> short_term_band p \<le> 20"
  by (simp add: short_term_band_def)
lemma long_term_band_bounds: "0 \<le> p \<Longrightarrow> p \<le> 1 \<Longrightarrow> 0 \<le> long_term_band p \<and> long_term_band p \<le> 25"
  by (simp add: long_term_band_def)
lemma benchmark_band_bounds: "0 \<le> p \<Longrightarrow> p \<le> 1 \<Longrightarrow> 0 \<le> benchmark_band p \<and> benchmark_band p \<le> 10"
  by (simp add: benchmark_band_def)
lemma stability_band_bounds: "0 \<le> p \<Longrightarrow> p \<le> 1 \<Longrightarrow> 0 \<le> stability_band p \<and> stability_band p \<le> 15"
  by (simp add: stability_band_def)

lemma score_fees_relative_bounds:
  "0 \<le> score_fees_relative fund all_funds \<and> score_fees_relative fund all_funds \<le> 15"
proof (cases "total_annual_fee fund")
  case None
  then show ?thesis by (simp add: score_fees_relative_def)
next
  case (Some fee)
  show ?thesis
    using fees_band_bounds [OF fraction_ge_bounds,
        of fee "List.map_filter total_annual_fee all_funds"] Some
    by (simp add: score_fees_relative_def Let_def)
qed

lemma score_scale_relative_bounds:
  "0 \<le> score_scale_relative fund all_funds \<and> score_scale_relative fund all_funds \<le> 15"
  using scale_band_bounds [OF fraction_ge_bounds,
      of "\<bar>scale fund - 26\<bar>" "map (\<lambda>s. \<bar>s - 26\<bar>) (map scale all_funds)"]
  by (simp add: score_scale_relative_def Let_def)

lemma score_short_term_bounds:
  "0 \<le> score_short_term_performance_relative fund all_funds
   \<and> score_short_term_performance_relative fund all_funds \<le> 20"
proof (cases "yearly_return fund")
  case None
  then show ?thesis by (simp add: score_short_term_performance_relative_def)
next
  case (Some r)
  show ?thesis
    using short_term_band_bounds [OF fraction_le_bounds,
        of r "List.map_filter yearly_return all_funds"] Some
    by (simp add: score_short_term_performance_relative_def Let_def)
qed

lemma score_beats_benchmark_bounds:
  "0 \<le> score_beats_benchmark_relative fund all_funds
   \<and> score_beats_benchmark_relative fund all_funds \<le> 10"
proof (cases "beats_benchmark_amount fund")
  case None
  then show ?thesis by (simp add: score_beats_benchmark_relative_def)
next
  case (Some r)
  show ?thesis
    using benchmark_band_bounds [OF fraction_le_bounds,
        of r "List.map_filter beats_benchmark_amount all_funds"] Some
    by (simp add: score_beats_benchmark_relative_def Let_def)
qed

lemma count_le_bound: "count_le rs x = Inr n \<Longrightarrow> n \<le> length rs"
  by (induction rs x arbitrary: n rule: count_le.induct) (auto split: sum.splits if_splits)

lemma score_long_term_bounds:
  assumes "score_long_term_performance_relative fund all_funds = Inr s"
  shows "0 \<le> s \<and> s \<le> 25"
proof -
  define pool where "pool = map annualized_pct (List.map_filter return_5year all_funds)"
  have band: "0 \<le> long_term_band (real n / real m) \<and> long_term_band (real n / real m) \<le> 25"
    if "n \<le> m" for n m :: nat
  proof (rule long_term_band_bounds)
    show "0 \<le> real n / real m" by simp
    show "real n / real m \<le> 1" using that by (cases "m = 0") (simp_all add: divide_le_eq_1)
  qed
  consider "s = 12" | n where "count_le pool (annualized_pct (the (return_5year fund))) = Inr n"
      "s = long_term_band (real n / real (length pool))"
    using assms unfolding score_long_term_performance_relative_def pool_def [symmetric] Let_def
    by (auto split: option.splits sum.splits if_splits)
  then show ?thesis
  proof cases
    case 1
    then show ?thesis by simp
  next
    case 2
    from count_le_bound [OF 2(1)] band show ?thesis unfolding 2(2) by blast
  qed
qed

lemma score_stability_bounds:
  "0 \<le> fst (score_stability_relative strptime now fund all_funds k)
   \<and> fst (score_stability_relative strptime now fund all_funds k) \<le> 15"
proof -
  obtain ages k1 where a: "ages_loop strptime now all_funds k = (ages, k1)"
    by (cases "ages_loop strptime now all_funds k")
  have "0 \<le> stability_band (fraction_le b ages) \<and> stability_band (fraction_le b ages) \<le> 15" for b
    by (rule stability_band_bounds [OF fraction_le_bounds])
  then show ?thesis
    by (simp add: score_stability_relative_def a Let_def split: option.split)
qed


section \<open>Monotonicity of the band tables\<close>

lemma fees_band_mono: "p \<le> q \<Longrightarrow> fees_band p \<le> fees_band q"
  unfolding fees_band_def max_def by argo
lemma scale_band_mono: "p \<le> q \<Longrightarrow> scale_band p \<le> scale_band q"
  unfolding scale_band_def by argo
lemma short_term_band_mono: "p \<le> q \<Longrightarrow> short_term_band p \<le> short_term_band q"
  unfolding short_term_band_def max_def by argo
lemma long_term_band_mono: "p \<le> q \<Longrightarrow> long_term_band p \<le> long_term_band q"
  unfolding long_term_band_def max_def by argo
lemma benchmark_band_mono: "p \<le> q \<Longrightarrow> benchmark_band p \<le> benchmark_band q"
  unfolding benchmark_band_def max_def by argo
lemma stability_band_mono: "p \<le> q \<Longrightarrow> stability_band p \<le> stability_band q"
  unfolding stability_band_def max_def by argo


section \<open>The worked example: three funds scored at noon of 2024-06-01\<close>

definition cohort_abc :: "FundData list" where
  "cohort_abc = [fund_a, fund_b, fund_c]"

definition noon_clock :: clock where
  "noon_clock = (\<lambda>k. at_day_hour 739038 12)"

lemmas parse_defs = strptime_ymd_def digit_val_def ymd_to_ordinal_def days_in_month_def
  is_leap_def days_before_year_def days_before_month_def

lemmas fund_defs = fund_a_def fund_b_def fund_c_def cohort_abc_def

lemma parse_fund_a: "strptime_ymd ''2012-05-04'' = Some 734627"
  by (simp add: parse_defs)

lemma parse_fund_b: "strptime_ymd ''2020-03-20'' = Some 737504"
  by (simp add: parse_defs)

lemma parse_fund_c: "strptime_ymd ''20/03/2019'' = None"
  by (simp add: parse_defs)

lemma fees_a: "score_fees_relative fund_a cohort_abc = 119 / 12"
  by (simp add: score_fees_relative_def fees_band_def fraction_ge_def List.map_filter_simps fund_defs)

lemma scale_a: "score_scale_relative fund_a cohort_abc = 15"
  by (simp add: score_scale_relative_def scale_band_def fraction_ge_def fund_defs)

lemma short_a: "score_short_term_performance_relative fund_a cohort_abc = 20"
  by (simp add: score_short_term_performance_relative_def short_term_band_def fraction_le_def
      List.map_filter_simps fund_defs)

lemma long_a: "score_long_term_performance_relative fund_a cohort_abc = Inr 25"
  by (simp add: score_long_term_performance_relative_def long_term_band_def annualized_pct_def
      List.map_filter_simps fund_defs)

lemma bench_a: "score_beats_benchmark_relative fund_a cohort_abc = 10"
  by (simp add: score_beats_benchmark_relative_def benchmark_band_def fraction_le_def
      List.map_filter_simps fund_defs)

lemma stab_a: "score_stability_relative strptime_ymd noon_clock fund_a cohort_abc 0 = (15, 3)"
  by (simp add: score_stability_relative_def stability_band_def fraction_le_def age_years_def
      usec_per_day_def at_day_hour_def noon_clock_def fund_defs
      parse_fund_a parse_fund_b parse_fund_c)

lemma score_fund_a:
  "score_fund strptime_ymd noon_clock fund_a (Some cohort_abc) 0
     = Inr ((1139 / 12, [Fee \<mapsto> 119 / 12, Scale \<mapsto> 15, ShortTerm \<mapsto> 20, LongTerm \<mapsto> 25,
                         Benchmark \<mapsto> 10, Stability \<mapsto> 15]), 3)"
  by (simp add: score_fund_def fees_a scale_a short_a long_a bench_a stab_a)

section \<open>Composite score: sum, range and caps\<close>

text \<open>
  \<open>score_fund\<close> raises only through the long-term factor, and only when a five-year
  return below -100 takes part in a comparison.
\<close>

lemma annualized_pct_float: "- 100 \<le> r \<Longrightarrow> annualized_pct r = PyFloat ((root 5 (1 + r / 100) - 1) * 100)"
  by (simp add: annualized_pct_def)

lemma count_le_floats:
  "count_le (map PyFloat xs) (PyFloat b) = Inr (length (filter (\<lambda>a. a \<le> b) xs))"
  by (induction xs) simp_all

lemma score_long_term_returns:
  assumes "\<forall>g \<in> set (fund # all_funds). \<forall>r. return_5year g = Some r \<longrightarrow> - 100 \<le> r"
  shows "\<exists>s. score_long_term_performance_relative fund all_funds = Inr s"
proof -
  define rs where "rs = List.map_filter return_5year all_funds"
  have "\<forall>r \<in> set rs. - 100 \<le> r"
    using assms by (auto simp: rs_def List.map_filter_def)
  then have pool: "map annualized_pct rs = map PyFloat (map (\<lambda>r. (root 5 (1 + r / 100) - 1) * 100) rs)"
    by (simp add: annualized_pct_float)
  show ?thesis
  proof (cases "return_5year fund")
    case None
    then show ?thesis by (simp add: score_long_term_performance_relative_def Let_def)
  next
    case (Some r5)
    then have r5: "- 100 \<le> r5" using assms by simp
    have cnt: "\<exists>n. count_le (map annualized_pct rs) (annualized_pct r5) = Inr n"
      unfolding pool annualized_pct_float [OF r5] count_le_floats by blast
    then show ?thesis
      unfolding score_long_term_performance_relative_def rs_def [symmetric] Let_def Some
      by auto
  qed
qed

lemma score_fund_returns:
  assumes "\<forall>g \<in> set (fund # all_funds). \<forall>r. return_5year g = Some r \<longrightarrow> - 100 \<le> r"
  shows "\<exists>total_score scores k'. score_fund strptime now fund (Some all_funds) k = Inr ((total_score, scores), k')"
proof -
  obtain s where "score_long_term_performance_relative fund all_funds = Inr s"
    using score_long_term_returns [OF assms] by blast
  then show ?thesis
    by (simp add: score_fund_def Let_def split: prod.split)
qed

text \<open>
  C1. Whenever \<open>score_fund\<close> returns (for any cohort, in particular one that contains
  the fund, and also for the default cohort), the total lies in [0, 100], the breakdown
  has exactly the six factor scores, the total is their sum, and each factor score lies
  between 0 and its cap: fee 15, scale 15, short-term 20, long-term 25, excess return
  10, stability 15. By \<open>score_fund_returns\<close> it does return whenever no five-year
  return involved is below -100.
\<close>

theorem score_fund_composite_bounds:
  assumes "score_fund strptime now fund cohort k = Inr ((total_score, scores), k')"
  shows "0 \<le> total_score \<and> total_score \<le> 100 \<and>
    (\<exists>fee sc st lt bm stab.
       scores = [Fee \<mapsto> fee, Scale \<mapsto> sc, ShortTerm \<mapsto> st, LongTerm \<mapsto> lt,
                 Benchmark \<mapsto> bm, Stability \<mapsto> stab] \<and>
       total_score = fee + sc + st + lt + bm + stab \<and>
       0 \<le> fee \<and> fee \<le> 15 \<and> 0 \<le> sc \<and> sc \<le> 15 \<and> 0 \<le> st \<and> st \<le> 20 \<and>
       0 \<le> lt \<and> lt \<le> 25 \<and> 0 \<le> bm \<and> bm \<le> 10 \<and> 0 \<le> stab \<and> stab \<le> 15)"
proof -
  define all_funds where "all_funds = (case cohort of None \<Rightarrow> [fund] | Some fs \<Rightarrow> fs)"
  define fee where "fee = score_fees_relative fund all_funds"
  define sc where "sc = score_scale_relative fund all_funds"
  define st where "st = score_short_term_performance_relative fund all_funds"
  define bm where "bm = score_beats_benchmark_relative fund all_funds"
  define stab where "stab = fst (score_stability_relative strptime now fund all_funds k)"
  obtain lt where lt: "score_long_term_performance_relative fund all_funds = Inr lt"
    using assms unfolding score_fund_def all_funds_def [symmetric] Let_def
    by (cases "score_long_term_performance_relative fund all_funds") simp_all
  have res: "total_score = fee + sc + st + lt + bm + stab"
    "scores = [Fee \<mapsto> fee, Scale \<mapsto> sc, ShortTerm \<mapsto> st, LongTerm \<mapsto> lt,
               Benchmark \<mapsto> bm, Stability \<mapsto> stab]"
    using assms lt
    unfolding score_fund_def all_funds_def [symmetric] Let_def fee_def sc_def st_def bm_def stab_def
    by (auto split: prod.splits)
  have b: "0 \<le> fee \<and> fee \<le> 15" "0 \<le> sc \<and> sc \<le> 15" "0 \<le> st \<and> st \<le> 20"
    "0 \<le> lt \<and> lt \<le> 25" "0 \<le> bm \<and> bm \<le> 10" "0 \<le> stab \<and> stab \<le> 15"
    unfolding fee_def sc_def st_def bm_def stab_def
    using score_fees_relative_bounds score_scale_relative_bounds score_short_term_bounds
      score_long_term_bounds [OF lt] score_beats_benchmark_bounds score_stability_bounds
    by blast+
  have "0 \<le> total_score \<and> total_score \<le> 100" using b unfolding res(1) by linarith
  then show ?thesis using res b by blast
qed

theorem score_fund_composite_bounds_witness:
  "score_fund strptime_ymd noon_clock fund_a (Some cohort_abc) 0
     = Inr ((1139 / 12, [Fee \<mapsto> 119 / 12, Scale \<mapsto> 15, ShortTerm \<mapsto> 20, LongTerm \<mapsto> 25,
                         Benchmark \<mapsto> 10, Stability \<mapsto> 15]), 3)
   \<and> fund_a \<in> set cohort_abc
   \<and> (0::real) \<le> 1139 / 12 \<and> (1139 / 12 :: real) \<le> 100
   \<and> (1139 / 12 :: real) = 119 / 12 + 15 + 20 + 25 + 10 + 15"
  using score_fund_composite_bounds [OF score_fund_a] score_fund_a
  by (simp add: cohort_abc_def)

section \<open>Long-term performance: only the five-year return counts\<close>

lemma map_filter_filter_Some:
  "List.map_filter f (filter (\<lambda>x. f x \<noteq> None) xs) = List.map_filter f xs"
  by (induction xs) (auto simp: List.map_filter_simps)

lemma map_filter_return_5year_update:
  "List.map_filter return_5year (map (\<lambda>f. f\<lparr>return_3year := g f\<rparr>) xs)
     = List.map_filter return_5year xs"
  by (induction xs) (auto simp: List.map_filter_simps split: option.splits)

lemma score_long_term_floats:
  assumes ok: "\<forall>f \<in> set (fund # all_funds). \<forall>r. return_5year f = Some r \<longrightarrow> - 100 \<le> r"
    and r5: "return_5year fund = Some r5"
    and ne: "List.map_filter return_5year all_funds \<noteq> []"
  shows "score_long_term_performance_relative fund all_funds
          = Inr (long_term_band
                  (fraction_le ((root 5 (1 + r5 / 100) - 1) * 100)
                     (map (\<lambda>r. (root 5 (1 + r / 100) - 1) * 100)
                        (List.map_filter return_5year all_funds))))"
proof -
  define rs where "rs = List.map_filter return_5year all_funds"
  have "\<forall>r \<in> set rs. - 100 \<le> r"
    using ok by (auto simp: rs_def List.map_filter_def)
  then have pool: "map annualized_pct rs = map PyFloat (map (\<lambda>r. (root 5 (1 + r / 100) - 1) * 100) rs)"
    by (simp add: annualized_pct_float)
  have f: "annualized_pct r5 = PyFloat ((root 5 (1 + r5 / 100) - 1) * 100)"
    using ok r5 by (simp add: annualized_pct_float)
  show ?thesis
  proof -
    define vs where "vs = map (\<lambda>r. (root 5 (1 + r / 100) - 1) * 100) rs"
    define v where "v = (root 5 (1 + r5 / 100) - 1) * 100"
    have cnt: "count_le (map annualized_pct rs) (annualized_pct r5)
                 = Inr (length (filter (\<lambda>a. a \<le> v) vs))"
      unfolding pool f vs_def [symmetric] v_def [symmetric] by (rule count_le_floats)
    have len: "length vs = length rs" by (simp add: vs_def)
    have "rs \<noteq> []" using ne by (simp add: rs_def)
    then show ?thesis
      unfolding score_long_term_performance_relative_def rs_def [symmetric] Let_def
        vs_def [symmetric] v_def [symmetric]
      by (simp add: r5 cnt len fraction_le_def)
  qed
qed

text \<open>
  C7. In \<open>score_long_term_performance_relative\<close>: a fund without a five-year return
  gets exactly 12, whatever the cohort; the result is the same when every fund without
  a five-year return is removed from the cohort (such funds are not in the comparison
  pool); the result is the same when the three-year returns of the fund and of every
  cohort member are replaced by anything else (they are never read); and when no
  five-year return involved is below -100, the score of a fund with five-year return
  \<open>r5\<close> is the band value of the share of pool members whose annualized return
  \<open>(1 + r / 100) ** (1/5) - 1\<close>, in percent, is at most the fund's.
\<close>

theorem long_term_uses_only_five_year:
  "(return_5year fund = None \<longrightarrow>
      score_long_term_performance_relative fund all_funds = Inr 12)
   \<and> score_long_term_performance_relative fund (filter (\<lambda>f. return_5year f \<noteq> None) all_funds)
       = score_long_term_performance_relative fund all_funds
   \<and> score_long_term_performance_relative (fund\<lparr>return_3year := x\<rparr>)
         (map (\<lambda>f. f\<lparr>return_3year := g f\<rparr>) all_funds)
       = score_long_term_performance_relative fund all_funds
   \<and> ((\<forall>f \<in> set (fund # all_funds). \<forall>r. return_5year f = Some r \<longrightarrow> - 100 \<le> r) \<longrightarrow>
        return_5year fund = Some r5 \<longrightarrow> List.map_filter return_5year all_funds \<noteq> [] \<longrightarrow>
        score_long_term_performance_relative fund all_funds
          = Inr (long_term_band
                  (fraction_le ((root 5 (1 + r5 / 100) - 1) * 100)
                     (map (\<lambda>r. (root 5 (1 + r / 100) - 1) * 100)
                        (List.map_filter return_5year all_funds)))))"
proof (intro conjI impI)
  assume "return_5year fund = None"
  then show "score_long_term_performance_relative fund all_funds = Inr 12"
    by (simp add: score_long_term_performance_relative_def Let_def)
next
  show "score_long_term_performance_relative fund (filter (\<lambda>f. return_5year f \<noteq> None) all_funds)
       = score_long_term_performance_relative fund all_funds"
    unfolding score_long_term_performance_relative_def map_filter_filter_Some ..
next
  show "score_long_term_performance_relative (fund\<lparr>return_3year := x\<rparr>)
         (map (\<lambda>f. f\<lparr>return_3year := g f\<rparr>) all_funds)
       = score_long_term_performance_relative fund all_funds"
    unfolding score_long_term_performance_relative_def map_filter_return_5year_update
    by (simp add: Let_def)
next
  assume "\<forall>f \<in> set (fund # all_funds). \<forall>r. return_5year f = Some r \<longrightarrow> - 100 \<le> r"
    and "return_5year fund = Some r5"
    and "List.map_filter return_5year all_funds \<noteq> []"
  then show "score_long_term_performance_relative fund all_funds
          = Inr (long_term_band
                  (fraction_le ((root 5 (1 + r5 / 100) - 1) * 100)
                     (map (\<lambda>r. (root 5 (1 + r / 100) - 1) * 100)
                        (List.map_filter return_5year all_funds))))"
    by (rule score_long_term_floats)
qed

lemma long_b: "score_long_term_performance_relative fund_b cohort_abc = Inr 12"
  by (simp add: score_long_term_performance_relative_def List.map_filter_simps fund_defs)

theorem long_term_uses_only_five_year_witness:
  "return_5year fund_b = None
   \<and> return_3year fund_b = Some 35
   \<and> score_long_term_performance_relative fund_b cohort_abc = Inr 12
   \<and> filter (\<lambda>f. return_5year f \<noteq> None) cohort_abc = [fund_a, fund_c]
   \<and> score_long_term_performance_relative fund_a [fund_a, fund_c]
       = score_long_term_performance_relative fund_a cohort_abc
   \<and> score_long_term_performance_relative (fund_a\<lparr>return_3year := None\<rparr>)
         (map (\<lambda>f. f\<lparr>return_3year := Some 0\<rparr>) cohort_abc) = Inr 25
   \<and> score_long_term_performance_relative fund_a cohort_abc
       = Inr (long_term_band (fraction_le ((root 5 (1 + 40 / 100) - 1) * 100)
               [(root 5 (1 + 40 / 100) - 1) * 100, (root 5 (1 + 10 / 100) - 1) * 100]))"
proof -
  have flt: "filter (\<lambda>f. return_5year f \<noteq> None) cohort_abc = [fund_a, fund_c]"
    by (simp add: fund_defs)
  have pool: "List.map_filter return_5year cohort_abc = [40, 10]"
    by (simp add: fund_defs List.map_filter_simps)
  have ok: "\<forall>f \<in> set (fund_a # cohort_abc). \<forall>r. return_5year f = Some r \<longrightarrow> - 100 \<le> r"
    by (simp add: fund_defs)
  have r5: "return_5year fund_a = Some 40" by (simp add: fund_a_def)
  note t = long_term_uses_only_five_year [of fund_b cohort_abc]
    long_term_uses_only_five_year [of fund_a cohort_abc None "\<lambda>f. Some 0" 40]
  show ?thesis
    using t ok r5 pool flt long_a by (simp add: fund_b_def)
qed

section \<open>Stability: dates that do not parse\<close>

text \<open>
  The absolute variant \<^verbatim>\<open>_score_stability\<close> (lines 312-336), kept in the source next
  to the relative one. The clock is read only after the date has parsed.
\<close>

definition score_stability :: "parser \<Rightarrow> clock \<Rightarrow> string option \<Rightarrow> nat \<Rightarrow> real \<times> nat" where
  "score_stability strptime now establish_date_opt k =
     (case establish_date_opt of
        None \<Rightarrow> (8, k)
      | Some s \<Rightarrow>
          if s = [] then (8, k)
          else
            (case strptime s of
               None \<Rightarrow> (8, k)
             | Some day \<Rightarrow>
                 let years = age_years (now k) day in
                 (if years \<ge> 3 then 12 + min 3 ((years - 3) / 2 * 3)
                  else if years \<ge> 1 then 8 + (years - 1) / 2 * 3
                  else years * 7, Suc k)))"

lemma ages_loop_append:
  "ages_loop strptime now (xs @ ys) k =
     (case ages_loop strptime now xs k of
        (a1, k1) \<Rightarrow> (case ages_loop strptime now ys k1 of (a2, k2) \<Rightarrow> (a1 @ a2, k2)))"
  by (induction xs arbitrary: k) (auto split: option.splits prod.splits)

lemma ages_loop_skip:
  assumes "establish_date f = Some s" "strptime s = None"
  shows "ages_loop strptime now (f # fs) k = ages_loop strptime now fs k"
  using assms by simp

text \<open>
  C10. For a fund whose \<open>establish_date\<close> is a non-empty string on which \<open>strptime\<close>
  raises: the relative stability score is 8 for every cohort and clock (the function
  has no error result: the bare \<^verbatim>\<open>except\<close> absorbs the \<^verbatim>\<open>ValueError\<close>), and no clock
  reading is spent on the fund itself; wherever the fund stands in a cohort, the age
  pool and the clock position after the loop are those of the cohort without it; and
  the absolute variant \<open>score_stability\<close> gives 8 as well.
\<close>

theorem malformed_date_scores_neutral:
  assumes "establish_date fund = Some s" and "s \<noteq> []" and "strptime s = None"
  shows "score_stability_relative strptime now fund all_funds k
           = (8, snd (ages_loop strptime now all_funds k))
       \<and> ages_loop strptime now (before @ fund # after) k
           = ages_loop strptime now (before @ after) k
       \<and> score_stability strptime now (establish_date fund) k = (8, k)"
proof (intro conjI)
  show "score_stability_relative strptime now fund all_funds k
           = (8, snd (ages_loop strptime now all_funds k))"
    using assms by (simp add: score_stability_relative_def split: prod.split)
  show "ages_loop strptime now (before @ fund # after) k
           = ages_loop strptime now (before @ after) k"
    unfolding ages_loop_append [of _ _ before]
      ages_loop_skip [where strptime = strptime and f = fund, OF assms(1,3)] ..
  show "score_stability strptime now (establish_date fund) k = (8, k)"
    using assms by (simp add: score_stability_def)
qed

lemma ages_abc:
  "ages_loop strptime_ymd noon_clock cohort_abc 0 = ([4411 / 365.25, 1534 / 365.25], 2)"
  by (simp add: age_years_def usec_per_day_def at_day_hour_def noon_clock_def fund_defs
      parse_fund_a parse_fund_b parse_fund_c)

theorem malformed_date_scores_neutral_witness:
  "establish_date fund_c = Some ''20/03/2019'' \<and> ''20/03/2019'' \<noteq> []
   \<and> strptime_ymd ''20/03/2019'' = None
   \<and> score_stability_relative strptime_ymd noon_clock fund_c cohort_abc 0 = (8, 2)
   \<and> ages_loop strptime_ymd noon_clock [fund_a, fund_b, fund_c] 0
       = ages_loop strptime_ymd noon_clock [fund_a, fund_b] 0
   \<and> score_stability strptime_ymd noon_clock (establish_date fund_c) 0 = (8, 0)"
proof -
  have d: "establish_date fund_c = Some ''20/03/2019''" by (simp add: fund_c_def)
  have ne: "''20/03/2019'' \<noteq> []" by simp
  note t = malformed_date_scores_neutral [where strptime = strptime_ymd and fund = fund_c
        and now = noon_clock and all_funds = cohort_abc and k = 0
        and before = "[fund_a, fund_b]" and after = "[]", OF d ne parse_fund_c]
  show ?thesis using t d parse_fund_c ages_abc by (simp add: cohort_abc_def)
qed

section \<open>Percentile monotonicity\<close>

lemma length_filter_le_mono:
  "(\<And>x. x \<in> set xs \<Longrightarrow> P x \<Longrightarrow> Q x) \<Longrightarrow> length (filter P xs) \<le> length (filter Q xs)"
  by (induction xs) auto

lemma fraction_ge_antimono: "a \<le> b \<Longrightarrow> fraction_ge b xs \<le> fraction_ge a xs"
  unfolding fraction_ge_def
  by (intro divide_right_mono of_nat_mono length_filter_le_mono) auto

lemma fraction_le_mono: "a \<le> b \<Longrightarrow> fraction_le a xs \<le> fraction_le b xs"
  unfolding fraction_le_def
  by (intro divide_right_mono of_nat_mono length_filter_le_mono) auto

lemma score_fees_relative_mono:
  assumes "total_annual_fee A = Some a" "total_annual_fee B = Some b" "a \<le> b"
  shows "score_fees_relative B cohort \<le> score_fees_relative A cohort"
  using assms fees_band_mono [OF fraction_ge_antimono [OF assms(3)]]
  by (simp add: score_fees_relative_def Let_def)

lemma score_scale_relative_mono:
  assumes "\<bar>scale A - 26\<bar> \<le> \<bar>scale B - 26\<bar>"
  shows "score_scale_relative B cohort \<le> score_scale_relative A cohort"
  using scale_band_mono [OF fraction_ge_antimono [OF assms]]
  by (simp add: score_scale_relative_def Let_def)

lemma score_short_term_mono:
  assumes "yearly_return A = Some a" "yearly_return B = Some b" "b \<le> a"
  shows "score_short_term_performance_relative B cohort
           \<le> score_short_term_performance_relative A cohort"
  using assms short_term_band_mono [OF fraction_le_mono [OF assms(3)]]
  by (simp add: score_short_term_performance_relative_def Let_def)

lemma score_beats_benchmark_mono:
  assumes "beats_benchmark_amount A = Some a" "beats_benchmark_amount B = Some b" "b \<le> a"
  shows "score_beats_benchmark_relative B cohort \<le> score_beats_benchmark_relative A cohort"
  using assms benchmark_band_mono [OF fraction_le_mono [OF assms(3)]]
  by (simp add: score_beats_benchmark_relative_def Let_def)

text \<open>The annualized return grows with the five-year return.\<close>

definition annualized :: "real \<Rightarrow> real" where
  "annualized r = (root 5 (1 + r / 100) - 1) * 100"

lemma annualized_mono: "b \<le> a \<Longrightarrow> annualized b \<le> annualized a"
  by (simp add: annualized_def)

lemma score_long_term_mono:
  assumes ok: "\<forall>f \<in> set (A # B # cohort). \<forall>r. return_5year f = Some r \<longrightarrow> - 100 \<le> r"
    and a: "return_5year A = Some a" and b: "return_5year B = Some b" and le: "b \<le> a"
  shows "\<exists>sA sB. score_long_term_performance_relative A cohort = Inr sA
           \<and> score_long_term_performance_relative B cohort = Inr sB \<and> sB \<le> sA"
proof (cases "List.map_filter return_5year cohort = []")
  case True
  then show ?thesis by (simp add: score_long_term_performance_relative_def)
next
  case False
  have okA: "\<forall>f \<in> set (A # cohort). \<forall>r. return_5year f = Some r \<longrightarrow> - 100 \<le> r"
    and okB: "\<forall>f \<in> set (B # cohort). \<forall>r. return_5year f = Some r \<longrightarrow> - 100 \<le> r"
    using ok by auto
  show ?thesis
    unfolding score_long_term_floats [OF okA a False] score_long_term_floats [OF okB b False]
    using long_term_band_mono [OF fraction_le_mono [OF annualized_mono [OF le]]]
    by (simp add: annualized_def)
qed

text \<open>
  Stability. When every reading of the clock falls on the same day \<open>today\<close>, the age
  of a fund established on day \<open>d\<close> is \<open>(today - d) / 365.25\<close> at every reading, and
  the age pool of a cohort does not depend on when it is built.
\<close>

definition pool_days :: "parser \<Rightarrow> FundData list \<Rightarrow> int list" where
  "pool_days strptime all_funds =
     List.map_filter
       (\<lambda>f. case establish_date f of None \<Rightarrow> None
             | Some s \<Rightarrow> if s = [] then None else strptime s) all_funds"

lemma days_between: "(now - d * usec_per_day) div usec_per_day = now div usec_per_day - d"
proof -
  have "(now + (- d) * usec_per_day) div usec_per_day = (- d) + now div usec_per_day"
    by (rule div_mult_self1) (simp add: usec_per_day_def)
  then show ?thesis by simp
qed

lemma age_years_same_day:
  "now div usec_per_day = today \<Longrightarrow> age_years now d = real_of_int (today - d) / 365.25"
  unfolding age_years_def days_between by simp

lemma ages_loop_same_day:
  assumes "\<forall>j. now j div usec_per_day = today"
  shows "ages_loop strptime now all_funds k
           = (map (\<lambda>d. real_of_int (today - d) / 365.25) (pool_days strptime all_funds),
              k + length (pool_days strptime all_funds))"
  using assms
  by (induction all_funds arbitrary: k)
    (auto simp: pool_days_def List.map_filter_simps age_years_same_day split: option.splits)

lemma score_stability_same_day:
  assumes day: "\<forall>j. now j div usec_per_day = today"
    and d: "establish_date A = Some s" "s \<noteq> []" "strptime s = Some d"
    and ne: "pool_days strptime cohort \<noteq> []"
  shows "fst (score_stability_relative strptime now A cohort k)
           = stability_band (fraction_le (real_of_int (today - d) / 365.25)
               (map (\<lambda>d. real_of_int (today - d) / 365.25) (pool_days strptime cohort)))"
  using d ne day
  by (simp add: score_stability_relative_def ages_loop_same_day [OF day] Let_def
      age_years_same_day)

lemma score_stability_mono:
  assumes day: "\<forall>j. now j div usec_per_day = today"
    and a: "establish_date A = Some sa" "sa \<noteq> []" "strptime sa = Some da"
    and b: "establish_date B = Some sb" "sb \<noteq> []" "strptime sb = Some db"
    and le: "da \<le> db"
  shows "fst (score_stability_relative strptime now B cohort kB)
           \<le> fst (score_stability_relative strptime now A cohort kA)"
proof (cases "pool_days strptime cohort = []")
  case True
  then show ?thesis
    by (simp add: score_stability_relative_def ages_loop_same_day [OF day])
next
  case False
  have "real_of_int (today - db) / 365.25 \<le> real_of_int (today - da) / 365.25"
    using le by (simp add: divide_right_mono)
  from stability_band_mono [OF fraction_le_mono [OF this]]
  show ?thesis
    unfolding score_stability_same_day [OF day a False] score_stability_same_day [OF day b False] .
qed

text \<open>
  C2. For a fixed cohort and each of the six dimensions: when fund \<open>A\<close>'s field is
  strictly better than fund \<open>B\<close>'s (lower total annual fee; smaller distance of the
  scale from 26; higher year-to-date return; higher five-year return; higher excess
  return; earlier establishment date, that is greater age), \<open>A\<close>'s percentile is at
  least \<open>B\<close>'s and \<open>A\<close>'s factor score is at least \<open>B\<close>'s. The long-term part
  assumes that no five-year return involved is below -100 (otherwise the code raises);
  the stability part assumes that the readings of the clock all fall on one day, so
  that a fund has one age.
\<close>

theorem percentile_monotone:
  "(total_annual_fee A = Some fa \<longrightarrow> total_annual_fee B = Some fb \<longrightarrow> fa < fb \<longrightarrow>
      fraction_ge fb (List.map_filter total_annual_fee cohort)
        \<le> fraction_ge fa (List.map_filter total_annual_fee cohort)
      \<and> score_fees_relative B cohort \<le> score_fees_relative A cohort)
   \<and> (\<bar>scale A - 26\<bar> < \<bar>scale B - 26\<bar> \<longrightarrow>
      fraction_ge \<bar>scale B - 26\<bar> (map (\<lambda>s. \<bar>s - 26\<bar>) (map scale cohort))
        \<le> fraction_ge \<bar>scale A - 26\<bar> (map (\<lambda>s. \<bar>s - 26\<bar>) (map scale cohort))
      \<and> score_scale_relative B cohort \<le> score_scale_relative A cohort)
   \<and> (yearly_return A = Some ya \<longrightarrow> yearly_return B = Some yb \<longrightarrow> yb < ya \<longrightarrow>
      fraction_le yb (List.map_filter yearly_return cohort)
        \<le> fraction_le ya (List.map_filter yearly_return cohort)
      \<and> score_short_term_performance_relative B cohort
        \<le> score_short_term_performance_relative A cohort)
   \<and> ((\<forall>f \<in> set (A # B # cohort). \<forall>r. return_5year f = Some r \<longrightarrow> - 100 \<le> r) \<longrightarrow>
      return_5year A = Some la \<longrightarrow> return_5year B = Some lb \<longrightarrow> lb < la \<longrightarrow>
      fraction_le (annualized lb) (map annualized (List.map_filter return_5year cohort))
        \<le> fraction_le (annualized la) (map annualized (List.map_filter return_5year cohort))
      \<and> (\<exists>sA sB. score_long_term_performance_relative A cohort = Inr sA
            \<and> score_long_term_performance_relative B cohort = Inr sB \<and> sB \<le> sA))
   \<and> (beats_benchmark_amount A = Some ea \<longrightarrow> beats_benchmark_amount B = Some eb \<longrightarrow> eb < ea \<longrightarrow>
      fraction_le eb (List.map_filter beats_benchmark_amount cohort)
        \<le> fraction_le ea (List.map_filter beats_benchmark_amount cohort)
      \<and> score_beats_benchmark_relative B cohort \<le> score_beats_benchmark_relative A cohort)
   \<and> ((\<forall>j. now j div usec_per_day = today) \<longrightarrow>
      establish_date A = Some sa \<longrightarrow> sa \<noteq> [] \<longrightarrow> strptime sa = Some da \<longrightarrow>
      establish_date B = Some sb \<longrightarrow> sb \<noteq> [] \<longrightarrow> strptime sb = Some db \<longrightarrow> da < db \<longrightarrow>
      fraction_le (age_years (now jB) db) (fst (ages_loop strptime now cohort kB))
        \<le> fraction_le (age_years (now jA) da) (fst (ages_loop strptime now cohort kA))
      \<and> fst (score_stability_relative strptime now B cohort kB)
        \<le> fst (score_stability_relative strptime now A cohort kA))"
proof (intro conjI impI)
  assume "fa < fb"
  then show "fraction_ge fb (List.map_filter total_annual_fee cohort)
        \<le> fraction_ge fa (List.map_filter total_annual_fee cohort)"
    by (intro fraction_ge_antimono) simp
next
  assume "total_annual_fee A = Some fa" "total_annual_fee B = Some fb" "fa < fb"
  then show "score_fees_relative B cohort \<le> score_fees_relative A cohort"
    by (intro score_fees_relative_mono [where a = fa and b = fb]) auto
next
  assume "\<bar>scale A - 26\<bar> < \<bar>scale B - 26\<bar>"
  then show "fraction_ge \<bar>scale B - 26\<bar> (map (\<lambda>s. \<bar>s - 26\<bar>) (map scale cohort))
        \<le> fraction_ge \<bar>scale A - 26\<bar> (map (\<lambda>s. \<bar>s - 26\<bar>) (map scale cohort))"
    by (intro fraction_ge_antimono) simp
next
  assume "\<bar>scale A - 26\<bar> < \<bar>scale B - 26\<bar>"
  then show "score_scale_relative B cohort \<le> score_scale_relative A cohort"
    by (intro score_scale_relative_mono) simp
next
  assume "yb < ya"
  then show "fraction_le yb (List.map_filter yearly_return cohort)
        \<le> fraction_le ya (List.map_filter yearly_return cohort)"
    by (intro fraction_le_mono) simp
next
  assume "yearly_return A = Some ya" "yearly_return B = Some yb" "yb < ya"
  then show "score_short_term_performance_relative B cohort
        \<le> score_short_term_performance_relative A cohort"
    by (intro score_short_term_mono [where a = ya and b = yb]) auto
next
  assume "lb < la"
  then show "fraction_le (annualized lb) (map annualized (List.map_filter return_5year cohort))
        \<le> fraction_le (annualized la) (map annualized (List.map_filter return_5year cohort))"
    by (intro fraction_le_mono annualized_mono) simp
next
  assume "\<forall>f \<in> set (A # B # cohort). \<forall>r. return_5year f = Some r \<longrightarrow> - 100 \<le> r"
    "return_5year A = Some la" "return_5year B = Some lb" "lb < la"
  then show "\<exists>sA sB. score_long_term_performance_relative A cohort = Inr sA
            \<and> score_long_term_performance_relative B cohort = Inr sB \<and> sB \<le> sA"
    by (intro score_long_term_mono [where a = la and b = lb]) auto
next
  assume "eb < ea"
  then show "fraction_le eb (List.map_filter beats_benchmark_amount cohort)
        \<le> fraction_le ea (List.map_filter beats_benchmark_amount cohort)"
    by (intro fraction_le_mono) simp
next
  assume "beats_benchmark_amount A = Some ea" "beats_benchmark_amount B = Some eb" "eb < ea"
  then show "score_beats_benchmark_relative B cohort \<le> score_beats_benchmark_relative A cohort"
    by (intro score_beats_benchmark_mono [where a = ea and b = eb]) auto
next
  assume day: "\<forall>j. now j div usec_per_day = today" and "da < db"
  then have "age_years (now jB) db \<le> age_years (now jA) da"
    by (simp add: age_years_same_day divide_right_mono)
  then show "fraction_le (age_years (now jB) db) (fst (ages_loop strptime now cohort kB))
        \<le> fraction_le (age_years (now jA) da) (fst (ages_loop strptime now cohort kA))"
    unfolding ages_loop_same_day [OF day] fst_conv by (rule fraction_le_mono)
next
  assume "\<forall>j. now j div usec_per_day = today"
    "establish_date A = Some sa" "sa \<noteq> []" "strptime sa = Some da"
    "establish_date B = Some sb" "sb \<noteq> []" "strptime sb = Some db" "da < db"
  then show "fst (score_stability_relative strptime now B cohort kB)
        \<le> fst (score_stability_relative strptime now A cohort kA)"
    by (intro score_stability_mono [where sa = sa and sb = sb and da = da and db = db
          and today = today]) auto
qed

lemma fees_c: "score_fees_relative fund_c cohort_abc = 109 / 12"
  by (simp add: score_fees_relative_def fees_band_def fraction_ge_def List.map_filter_simps fund_defs)

lemma scale_c: "score_scale_relative fund_c cohort_abc = 55 / 6"
  by (simp add: score_scale_relative_def scale_band_def fraction_ge_def fund_defs)

lemma short_c: "score_short_term_performance_relative fund_c cohort_abc = 73 / 6"
  by (simp add: score_short_term_performance_relative_def short_term_band_def fraction_le_def
      List.map_filter_simps fund_defs)

lemma long_c: "score_long_term_performance_relative fund_c cohort_abc = Inr (31 / 2)"
  by (simp add: score_long_term_performance_relative_def long_term_band_def annualized_pct_def
      List.map_filter_simps fund_defs)

lemma bench_c: "score_beats_benchmark_relative fund_c cohort_abc = 11 / 2"
  by (simp add: score_beats_benchmark_relative_def benchmark_band_def fraction_le_def
      List.map_filter_simps fund_defs)

lemma stab_b: "score_stability_relative strptime_ymd noon_clock fund_b cohort_abc 3 = (17 / 2, 6)"
  by (simp add: score_stability_relative_def stability_band_def fraction_le_def age_years_def
      usec_per_day_def at_day_hour_def noon_clock_def fund_defs
      parse_fund_a parse_fund_b parse_fund_c)

lemma noon_clock_day: "\<forall>j. noon_clock j div usec_per_day = 739038"
  by (simp add: noon_clock_def at_day_hour_def usec_per_day_def)

theorem percentile_monotone_witness:
  "score_fees_relative fund_c cohort_abc = 109 / 12 \<and> score_fees_relative fund_a cohort_abc = 119 / 12
   \<and> score_fees_relative fund_c cohort_abc \<le> score_fees_relative fund_a cohort_abc
   \<and> score_scale_relative fund_c cohort_abc = 55 / 6 \<and> score_scale_relative fund_a cohort_abc = 15
   \<and> score_scale_relative fund_c cohort_abc \<le> score_scale_relative fund_a cohort_abc
   \<and> score_short_term_performance_relative fund_c cohort_abc = 73 / 6
   \<and> score_short_term_performance_relative fund_a cohort_abc = 20
   \<and> score_short_term_performance_relative fund_c cohort_abc
        \<le> score_short_term_performance_relative fund_a cohort_abc
   \<and> score_long_term_performance_relative fund_a cohort_abc = Inr 25
   \<and> score_long_term_performance_relative fund_c cohort_abc = Inr (31 / 2)
   \<and> score_beats_benchmark_relative fund_c cohort_abc = 11 / 2
   \<and> score_beats_benchmark_relative fund_a cohort_abc = 10
   \<and> score_beats_benchmark_relative fund_c cohort_abc \<le> score_beats_benchmark_relative fund_a cohort_abc
   \<and> fst (score_stability_relative strptime_ymd noon_clock fund_b cohort_abc 3) = 17 / 2
   \<and> fst (score_stability_relative strptime_ymd noon_clock fund_a cohort_abc 0) = 15
   \<and> fst (score_stability_relative strptime_ymd noon_clock fund_b cohort_abc 3)
        \<le> fst (score_stability_relative strptime_ymd noon_clock fund_a cohort_abc 0)"
proof -
  have h5: "\<forall>f \<in> set (fund_a # fund_c # cohort_abc). \<forall>r. return_5year f = Some r \<longrightarrow> - 100 \<le> r"
    by (simp add: fund_defs)
  have fields: "total_annual_fee fund_a = Some 0.0065" "total_annual_fee fund_c = Some 0.018"
    "\<bar>scale fund_a - 26\<bar> < \<bar>scale fund_c - 26\<bar>"
    "yearly_return fund_a = Some 12.5" "yearly_return fund_c = Some (- 3)"
    "return_5year fund_a = Some 40" "return_5year fund_c = Some 10"
    "beats_benchmark_amount fund_a = Some 1.5" "beats_benchmark_amount fund_c = Some (- 2.25)"
    "establish_date fund_a = Some ''2012-05-04''" "establish_date fund_b = Some ''2020-03-20''"
    by (simp_all add: fund_defs)
  note ac = percentile_monotone [where A = fund_a and B = fund_c and cohort = cohort_abc
      and fa = "0.0065" and fb = "0.018" and ya = "12.5" and yb = "- 3" and la = 40 and lb = 10
      and ea = "1.5" and eb = "- 2.25"]
  note ab = percentile_monotone [where A = fund_a and B = fund_b and cohort = cohort_abc
      and strptime = strptime_ymd and now = noon_clock and today = 739038
      and sa = "''2012-05-04''" and sb = "''2020-03-20''" and da = 734627 and db = 737504
      and kA = 0 and kB = 3]
  show ?thesis
    using ac ab h5 fields noon_clock_day parse_fund_a parse_fund_b
      fees_a fees_c scale_a scale_c short_a short_c long_a long_c bench_a bench_c stab_a stab_b
    by simp
qed

section \<open>Scoring a cohort and ranking it (src/main.py, lines 240-251)\<close>

text \<open>
  \<^verbatim>\<open>analyze_sector\<close> scores every fund against the whole list and appends a dict with
  the keys \<^verbatim>\<open>"fund"\<close>, \<^verbatim>\<open>"score"\<close> and \<^verbatim>\<open>"breakdown"\<close> (the fields \<open>entry_fund\<close>,
  \<open>entry_score\<close> and \<open>entry_breakdown\<close> here). An exception of \<open>score_fund\<close> ends the
  loop.
\<close>

record scored_entry =
  entry_fund :: FundData
  entry_score :: real
  entry_breakdown :: breakdown

fun score_loop ::
  "parser \<Rightarrow> clock \<Rightarrow> FundData list \<Rightarrow> FundData list \<Rightarrow> nat
     \<Rightarrow> error + (scored_entry list \<times> nat)" where
  "score_loop strptime now funds [] k = Inr ([], k)"
| "score_loop strptime now funds (fund # rest) k =
     (case score_fund strptime now fund (Some funds) k of
        Inl e \<Rightarrow> Inl e
      | Inr ((score, breakdown), k1) \<Rightarrow>
          (case score_loop strptime now funds rest k1 of
             Inl e \<Rightarrow> Inl e
           | Inr (scored_funds, k2) \<Rightarrow>
               Inr (\<lparr>entry_fund = fund, entry_score = score, entry_breakdown = breakdown\<rparr>
                      # scored_funds, k2)))"

text \<open>
  \<^verbatim>\<open>scored_funds.sort(key=lambda x: x["score"], reverse=True)\<close>. Python's sort is stable,
  also with \<^verbatim>\<open>reverse=True\<close>: entries with equal keys keep their order. Descending by
  score with ties in the original order is ascending by the negated score with ties in
  the original order, which is what the library's stable \<open>sort_key\<close> computes (and
  \<open>properties_for_sort_key\<close> says no other list has these properties).
\<close>

definition sort_by_score_reverse :: "scored_entry list \<Rightarrow> scored_entry list" where
  "sort_by_score_reverse scored_funds = sort_key (\<lambda>x. - entry_score x) scored_funds"

definition rank_funds ::
  "parser \<Rightarrow> clock \<Rightarrow> FundData list \<Rightarrow> nat \<Rightarrow> error + (scored_entry list \<times> nat)" where
  "rank_funds strptime now funds k =
     (case score_loop strptime now funds funds k of
        Inl e \<Rightarrow> Inl e
      | Inr (scored_funds, k') \<Rightarrow> Inr (sort_by_score_reverse scored_funds, k'))"

lemma score_loop_funds:
  "score_loop strptime now funds rest k = Inr (scored, k') \<Longrightarrow> map entry_fund scored = rest"
  by (induction rest arbitrary: k scored) (auto split: sum.splits prod.splits)

lemma sorted_desc_sort_by_score_reverse:
  "sorted_wrt (\<lambda>a b. entry_score a \<ge> entry_score b) (sort_by_score_reverse xs)"
proof -
  have "sorted (map (\<lambda>x. - entry_score x) (sort_by_score_reverse xs))"
    unfolding sort_by_score_reverse_def by (rule sorted_sort_key)
  then show ?thesis by (simp add: sorted_map sorted_wrt_iff_nth_less)
qed

lemma stable_sort_by_score_reverse:
  "filter (\<lambda>e. entry_score e = s) (sort_by_score_reverse xs) = filter (\<lambda>e. entry_score e = s) xs"
proof -
  have "filter (\<lambda>e. - entry_score e = - s) (sort_key (\<lambda>x. - entry_score x) xs)
          = filter (\<lambda>e. - entry_score e = - s) xs"
    by (rule sort_key_stable)
  then show ?thesis by (simp add: sort_by_score_reverse_def)
qed

text \<open>Two funds that differ in nothing but the code.\<close>

definition fund_a2 :: FundData where
  "fund_a2 = fund_a\<lparr>code := ''159919''\<rparr>"

lemma score_fund_twins:
  "score_fund strptime_ymd noon_clock fund_a (Some [fund_a, fund_a2]) 0
     = Inr ((100, [Fee \<mapsto> 15, Scale \<mapsto> 15, ShortTerm \<mapsto> 20, LongTerm \<mapsto> 25,
                   Benchmark \<mapsto> 10, Stability \<mapsto> 15]), 3)"
  "score_fund strptime_ymd noon_clock fund_a2 (Some [fund_a, fund_a2]) 3
     = Inr ((100, [Fee \<mapsto> 15, Scale \<mapsto> 15, ShortTerm \<mapsto> 20, LongTerm \<mapsto> 25,
                   Benchmark \<mapsto> 10, Stability \<mapsto> 15]), 6)"
  "score_fund strptime_ymd noon_clock fund_a2 (Some [fund_a2, fund_a]) 0
     = Inr ((100, [Fee \<mapsto> 15, Scale \<mapsto> 15, ShortTerm \<mapsto> 20, LongTerm \<mapsto> 25,
                   Benchmark \<mapsto> 10, Stability \<mapsto> 15]), 3)"
  "score_fund strptime_ymd noon_clock fund_a (Some [fund_a2, fund_a]) 3
     = Inr ((100, [Fee \<mapsto> 15, Scale \<mapsto> 15, ShortTerm \<mapsto> 20, LongTerm \<mapsto> 25,
                   Benchmark \<mapsto> 10, Stability \<mapsto> 15]), 6)"
  by (simp_all add: score_fund_def score_fees_relative_def fees_band_def fraction_ge_def
      score_scale_relative_def scale_band_def score_short_term_performance_relative_def
      short_term_band_def fraction_le_def score_long_term_performance_relative_def
      long_term_band_def annualized_pct_def score_beats_benchmark_relative_def
      benchmark_band_def score_stability_relative_def stability_band_def age_years_def
      usec_per_day_def at_day_hour_def noon_clock_def List.map_filter_simps
      fund_a_def fund_a2_def parse_fund_a)

section \<open>Ranking: descending by score, ties in input order\<close>

definition full_marks :: breakdown where
  "full_marks = [Fee \<mapsto> 15, Scale \<mapsto> 15, ShortTerm \<mapsto> 20, LongTerm \<mapsto> 25,
                 Benchmark \<mapsto> 10, Stability \<mapsto> 15]"

lemma rank_twins:
  "rank_funds strptime_ymd noon_clock [fund_a, fund_a2] 0
     = Inr ([\<lparr>entry_fund = fund_a, entry_score = 100, entry_breakdown = full_marks\<rparr>,
             \<lparr>entry_fund = fund_a2, entry_score = 100, entry_breakdown = full_marks\<rparr>], 6)"
  "rank_funds strptime_ymd noon_clock [fund_a2, fund_a] 0
     = Inr ([\<lparr>entry_fund = fund_a2, entry_score = 100, entry_breakdown = full_marks\<rparr>,
             \<lparr>entry_fund = fund_a, entry_score = 100, entry_breakdown = full_marks\<rparr>], 6)"
  by (simp_all add: rank_funds_def score_fund_twins sort_by_score_reverse_def full_marks_def)

text \<open>
  C4, as stated, fails: \<open>fund_a\<close> and \<open>fund_a2\<close> tie at 100 points; ranked from the
  list \<open>[fund_a, fund_a2]\<close>, the fund with code 510300 stands before the fund with
  code 159919, although \<open>''159919'' < ''510300''\<close>; ranked from the list
  \<open>[fund_a2, fund_a]\<close>, they stand the other way round.
\<close>

theorem rank_ties_by_identifier_counterexample:
  "rank_funds strptime_ymd noon_clock [fund_a, fund_a2] 0
     = Inr ([\<lparr>entry_fund = fund_a, entry_score = 100, entry_breakdown = full_marks\<rparr>,
             \<lparr>entry_fund = fund_a2, entry_score = 100, entry_breakdown = full_marks\<rparr>], 6)
   \<and> rank_funds strptime_ymd noon_clock [fund_a2, fund_a] 0
     = Inr ([\<lparr>entry_fund = fund_a2, entry_score = 100, entry_breakdown = full_marks\<rparr>,
             \<lparr>entry_fund = fund_a, entry_score = 100, entry_breakdown = full_marks\<rparr>], 6)
   \<and> code fund_a = ''510300'' \<and> code fund_a2 = ''159919'' \<and> ''159919'' < ''510300''"
proof -
  have "code fund_a = ''510300''" "code fund_a2 = ''159919''" "''159919'' < ''510300''"
    by (simp_all add: fund_a_def fund_a2_def)
  then show ?thesis using rank_twins by simp
qed

text \<open>
  C4, amended. Whenever the ranking returns: the ranked list is in descending order of
  score; it is a permutation of the scored list, which has one entry per fund of the
  input, in input order; and for every score value, the entries with that score stand
  in the ranked list in the order they have in the input (no tie-break by code).
\<close>

theorem rank_funds_sorted_stable:
  assumes "rank_funds strptime now funds k = Inr (ranked, k')"
  shows "sorted_wrt (\<lambda>a b. entry_score a \<ge> entry_score b) ranked
     \<and> (\<exists>scored. score_loop strptime now funds funds k = Inr (scored, k')
           \<and> map entry_fund scored = funds
           \<and> mset ranked = mset scored
           \<and> (\<forall>s. filter (\<lambda>e. entry_score e = s) ranked
                    = filter (\<lambda>e. entry_score e = s) scored))"
proof -
  obtain scored where sc: "score_loop strptime now funds funds k = Inr (scored, k')"
    and r: "ranked = sort_by_score_reverse scored"
    using assms by (auto simp: rank_funds_def split: sum.splits prod.splits)
  have "mset ranked = mset scored"
    by (simp add: r sort_by_score_reverse_def)
  then show ?thesis
    using sc score_loop_funds [OF sc] sorted_desc_sort_by_score_reverse [of scored]
      stable_sort_by_score_reverse [of _ scored]
    by (auto simp: r)
qed

theorem rank_funds_sorted_stable_witness:
  "rank_funds strptime_ymd noon_clock [fund_a, fund_a2] 0
     = Inr ([\<lparr>entry_fund = fund_a, entry_score = 100, entry_breakdown = full_marks\<rparr>,
             \<lparr>entry_fund = fund_a2, entry_score = 100, entry_breakdown = full_marks\<rparr>], 6)
   \<and> sorted_wrt (\<lambda>a b. entry_score a \<ge> entry_score b)
        [\<lparr>entry_fund = fund_a, entry_score = 100, entry_breakdown = full_marks\<rparr>,
         \<lparr>entry_fund = fund_a2, entry_score = 100, entry_breakdown = full_marks\<rparr>]
   \<and> score_loop strptime_ymd noon_clock [fund_a, fund_a2] [fund_a, fund_a2] 0
     = Inr ([\<lparr>entry_fund = fund_a, entry_score = 100, entry_breakdown = full_marks\<rparr>,
             \<lparr>entry_fund = fund_a2, entry_score = 100, entry_breakdown = full_marks\<rparr>], 6)"
  using rank_funds_sorted_stable [OF rank_twins(1)] rank_twins(1)
  by (simp add: score_fund_twins full_marks_def)

section \<open>Determinism and the clock\<close>

lemma age_years_days: "age_years now d = real_of_int (now div usec_per_day - d) / 365.25"
  unfolding age_years_def days_between ..

lemma age_years_days_cong:
  assumes "\<forall>j. now j div usec_per_day = now' j div usec_per_day"
  shows "age_years (now j) d = age_years (now' j) d"
  by (simp add: age_years_days assms)

lemma ages_loop_days_cong:
  assumes "\<forall>j. now j div usec_per_day = now' j div usec_per_day"
  shows "ages_loop strptime now all_funds k = ages_loop strptime now' all_funds k"
  by (induction all_funds arbitrary: k)
    (auto simp: age_years_days_cong [OF assms] split: option.splits)

lemma score_stability_days_cong:
  assumes "\<forall>j. now j div usec_per_day = now' j div usec_per_day"
  shows "score_stability_relative strptime now fund all_funds k
           = score_stability_relative strptime now' fund all_funds k"
  unfolding score_stability_relative_def ages_loop_days_cong [OF assms]
    age_years_days_cong [OF assms] ..

lemma score_fund_days_cong:
  assumes "\<forall>j. now j div usec_per_day = now' j div usec_per_day"
  shows "score_fund strptime now fund cohort k = score_fund strptime now' fund cohort k"
  unfolding score_fund_def score_stability_days_cong [OF assms] ..

lemma score_loop_days_cong:
  assumes "\<forall>j. now j div usec_per_day = now' j div usec_per_day"
  shows "score_loop strptime now funds rest k = score_loop strptime now' funds rest k"
  by (induction rest arbitrary: k)
    (auto simp: score_fund_days_cong [OF assms] split: sum.splits prod.splits)

lemma ages_loop_result:
  "ages_loop strptime now all_funds k = (ages, k') \<Longrightarrow>
     k' = k + length (pool_days strptime all_funds)
     \<and> length ages = length (pool_days strptime all_funds)"
proof (induction all_funds arbitrary: k ages k')
  case Nil
  then show ?case by (simp add: pool_days_def List.map_filter_simps)
next
  case (Cons f fs)
  show ?case
  proof (cases "pool_days strptime [f]")
    case Nil
    then have "ages_loop strptime now (f # fs) k = ages_loop strptime now fs k"
      "pool_days strptime (f # fs) = pool_days strptime fs"
      by (auto simp: pool_days_def List.map_filter_simps split: option.splits if_splits)
    then show ?thesis using Cons.IH [of k ages k'] Cons.prems by simp
  next
    case (Cons d ds)
    obtain a1 k1 where r: "ages_loop strptime now fs (Suc k) = (a1, k1)"
      by (cases "ages_loop strptime now fs (Suc k)")
    from Cons have "ages_loop strptime now (f # fs) k = (age_years (now k) d # a1, k1)"
      "pool_days strptime (f # fs) = d # pool_days strptime fs"
      by (auto simp: pool_days_def List.map_filter_simps r split: option.splits if_splits)
    then show ?thesis using Cons.IH [OF r] Cons.prems by auto
  qed
qed

lemma score_stability_reads:
  "snd (score_stability_relative strptime now fund all_funds k)
     = k + length (pool_days strptime all_funds)
         + (if pool_days strptime all_funds \<noteq> [] \<and> pool_days strptime [fund] \<noteq> [] then 1 else 0)"
proof -
  obtain ages k1 where a: "ages_loop strptime now all_funds k = (ages, k1)"
    by (cases "ages_loop strptime now all_funds k")
  have k1: "k1 = k + length (pool_days strptime all_funds)"
    using ages_loop_result [OF a] by simp
  have e: "ages = [] \<longleftrightarrow> pool_days strptime all_funds = []"
    using ages_loop_result [OF a] by auto
  show ?thesis
    by (auto simp: score_stability_relative_def a k1 e pool_days_def List.map_filter_simps
        Let_def split: option.splits)
qed

lemma score_fund_entries:
  assumes "score_fund strptime now fund cohort k = Inr ((total_score, scores), k')"
  shows "scores Fee = Some (score_fees_relative fund (case cohort of None \<Rightarrow> [fund] | Some fs \<Rightarrow> fs))"
    and "scores Scale = Some (score_scale_relative fund (case cohort of None \<Rightarrow> [fund] | Some fs \<Rightarrow> fs))"
    and "scores ShortTerm = Some (score_short_term_performance_relative fund (case cohort of None \<Rightarrow> [fund] | Some fs \<Rightarrow> fs))"
    and "Inr (the (scores LongTerm)) = score_long_term_performance_relative fund (case cohort of None \<Rightarrow> [fund] | Some fs \<Rightarrow> fs)"
    and "scores Benchmark = Some (score_beats_benchmark_relative fund (case cohort of None \<Rightarrow> [fund] | Some fs \<Rightarrow> fs))"
    and "scores Stability = Some (fst (score_stability_relative strptime now fund (case cohort of None \<Rightarrow> [fund] | Some fs \<Rightarrow> fs) k))"
    and "k' = snd (score_stability_relative strptime now fund (case cohort of None \<Rightarrow> [fund] | Some fs \<Rightarrow> fs) k)"
    and "dom scores = UNIV"
  using assms
  by (auto simp: score_fund_def Let_def split: sum.splits prod.splits dimension.splits
      intro: dimension.exhaust)

text \<open>
  Two funds established on consecutive days, scored in a run that starts in the last
  microsecond of 2024-06-01. With \<open>steady_clock\<close> every reading is that moment; with
  \<open>midnight_clock\<close> the third reading (the one for the scored fund's own age) falls
  on the next day.
\<close>

definition fund_d :: FundData where
  "fund_d = fund_b\<lparr>code := ''159920'', establish_date := Some ''2020-03-19''\<rparr>"

definition steady_clock :: clock where
  "steady_clock = (\<lambda>j. 739039 * usec_per_day - 1)"

definition midnight_clock :: clock where
  "midnight_clock = (\<lambda>j. if j < 2 then 739039 * usec_per_day - 1 else 739039 * usec_per_day)"

lemma parse_fund_d: "strptime_ymd ''2020-03-19'' = Some 737503"
  by (simp add: parse_defs)

lemma stab_steady:
  "score_stability_relative strptime_ymd steady_clock fund_b [fund_d, fund_b] 0 = (17 / 2, 3)"
  by (simp add: score_stability_relative_def stability_band_def fraction_le_def age_years_def
      usec_per_day_def steady_clock_def fund_d_def fund_b_def parse_fund_b parse_fund_d)

lemma stab_midnight:
  "score_stability_relative strptime_ymd midnight_clock fund_b [fund_d, fund_b] 0 = (15, 3)"
  by (simp add: score_stability_relative_def stability_band_def fraction_le_def age_years_def
      usec_per_day_def midnight_clock_def fund_d_def fund_b_def parse_fund_b parse_fund_d)

text \<open>
  C9, as stated, fails: the moment is not captured once per run. The two runs below score
  the same fund against the same cohort and start at the same moment, and give
  different stability scores (8.5 and 15), hence different results of \<open>score_fund\<close>.
\<close>

theorem moment_not_captured_once_counterexample:
  "steady_clock 0 = midnight_clock 0
   \<and> fst (score_stability_relative strptime_ymd steady_clock fund_b [fund_d, fund_b] 0) = 17 / 2
   \<and> fst (score_stability_relative strptime_ymd midnight_clock fund_b [fund_d, fund_b] 0) = 15
   \<and> score_fund strptime_ymd steady_clock fund_b (Some [fund_d, fund_b]) 0
       \<noteq> score_fund strptime_ymd midnight_clock fund_b (Some [fund_d, fund_b]) 0"
proof -
  have ok: "\<forall>g \<in> set (fund_b # [fund_d, fund_b]). \<forall>r. return_5year g = Some r \<longrightarrow> - 100 \<le> r"
    by (simp add: fund_b_def fund_d_def)
  obtain t sc k' where s: "score_fund strptime_ymd steady_clock fund_b (Some [fund_d, fund_b]) 0
      = Inr ((t, sc), k')"
    using score_fund_returns [OF ok] by blast
  obtain t' sc' k'' where m: "score_fund strptime_ymd midnight_clock fund_b (Some [fund_d, fund_b]) 0
      = Inr ((t', sc'), k'')"
    using score_fund_returns [OF ok] by blast
  have "sc Stability = Some (17 / 2)" "sc' Stability = Some 15"
    using score_fund_entries(6) [OF s] score_fund_entries(6) [OF m]
    by (simp_all add: stab_steady stab_midnight)
  then have "sc \<noteq> sc'" by auto
  moreover have "steady_clock 0 = midnight_clock 0"
    by (simp add: steady_clock_def midnight_clock_def)
  ultimately show ?thesis
    by (simp add: s m stab_steady stab_midnight)
qed

text \<open>
  C9, amended. The clock is read afresh at every age computation: a stability score
  takes one reading per cohort fund whose date parses and one more for the scored fund.
  The scores depend on the readings only through the calendar day of each: two clocks
  whose readings agree in their days give identical results of \<open>score_fund\<close> and of
  the whole ranking. For any two clocks whatever, the five factors other than stability
  are the same.
\<close>

theorem scoring_depends_on_reading_days:
  "((\<forall>j. now j div usec_per_day = now' j div usec_per_day) \<longrightarrow>
      score_fund strptime now fund cohort k = score_fund strptime now' fund cohort k
      \<and> rank_funds strptime now funds k = rank_funds strptime now' funds k)
   \<and> (score_fund strptime now fund cohort k = Inr ((t, sc), k1) \<longrightarrow>
      score_fund strptime now' fund cohort k = Inr ((t', sc'), k1') \<longrightarrow>
      (\<forall>d. d \<noteq> Stability \<longrightarrow> sc d = sc' d) \<and> k1' = k1)
   \<and> snd (score_stability_relative strptime now fund all_funds k)
       = k + length (pool_days strptime all_funds)
           + (if pool_days strptime all_funds \<noteq> [] \<and> pool_days strptime [fund] \<noteq> [] then 1 else 0)"
proof (intro conjI impI allI)
  assume d: "\<forall>j. now j div usec_per_day = now' j div usec_per_day"
  show "score_fund strptime now fund cohort k = score_fund strptime now' fund cohort k"
    by (rule score_fund_days_cong [OF d])
  show "rank_funds strptime now funds k = rank_funds strptime now' funds k"
    by (simp add: rank_funds_def score_loop_days_cong [OF d])
next
  fix d
  assume a: "score_fund strptime now fund cohort k = Inr ((t, sc), k1)"
    and b: "score_fund strptime now' fund cohort k = Inr ((t', sc'), k1')"
    and d: "d \<noteq> Stability"
  have lt: "sc LongTerm = sc' LongTerm"
  proof -
    have "Inr (the (sc LongTerm)) = (Inr (the (sc' LongTerm)) :: error + real)"
      using score_fund_entries(4) [OF a] score_fund_entries(4) [OF b] by simp
    moreover have "LongTerm \<in> dom sc" "LongTerm \<in> dom sc'"
      using score_fund_entries(8) [OF a] score_fund_entries(8) [OF b] by simp_all
    ultimately show ?thesis by auto
  qed
  show "sc d = sc' d"
    using d lt score_fund_entries(1,2,3,5) [OF a] score_fund_entries(1,2,3,5) [OF b]
    by (cases d) simp_all
next
  assume a: "score_fund strptime now fund cohort k = Inr ((t, sc), k1)"
    and b: "score_fund strptime now' fund cohort k = Inr ((t', sc'), k1')"
  show "k1' = k1"
    unfolding score_fund_entries(7) [OF a] score_fund_entries(7) [OF b] score_stability_reads ..
next
  show "snd (score_stability_relative strptime now fund all_funds k)
       = k + length (pool_days strptime all_funds)
           + (if pool_days strptime all_funds \<noteq> [] \<and> pool_days strptime [fund] \<noteq> [] then 1 else 0)"
    by (rule score_stability_reads)
qed

definition alternating_clock :: clock where
  "alternating_clock = (\<lambda>j. at_day_hour 739038 (if even j then 9 else 15))"

theorem scoring_depends_on_reading_days_witness:
  "(\<forall>j. noon_clock j div usec_per_day = alternating_clock j div usec_per_day)
   \<and> score_fund strptime_ymd alternating_clock fund_a (Some cohort_abc) 0
       = Inr ((1139 / 12, [Fee \<mapsto> 119 / 12, Scale \<mapsto> 15, ShortTerm \<mapsto> 20, LongTerm \<mapsto> 25,
                           Benchmark \<mapsto> 10, Stability \<mapsto> 15]), 3)
   \<and> rank_funds strptime_ymd noon_clock cohort_abc 0
       = rank_funds strptime_ymd alternating_clock cohort_abc 0
   \<and> pool_days strptime_ymd cohort_abc = [734627, 737504]
   \<and> snd (score_stability_relative strptime_ymd noon_clock fund_a cohort_abc 0) = 3"
proof -
  have d: "\<forall>j. noon_clock j div usec_per_day = alternating_clock j div usec_per_day"
    by (simp add: noon_clock_def alternating_clock_def at_day_hour_def usec_per_day_def)
  have p: "pool_days strptime_ymd cohort_abc = [734627, 737504]"
    "pool_days strptime_ymd [fund_a] = [734627]"
    by (simp_all add: pool_days_def List.map_filter_simps fund_defs
        parse_fund_a parse_fund_b parse_fund_c)
  note t = scoring_depends_on_reading_days [where now = noon_clock and now' = alternating_clock
      and strptime = strptime_ymd and fund = fund_a and cohort = "Some cohort_abc" and k = 0
      and funds = cohort_abc and all_funds = cohort_abc]
  show ?thesis using t d p score_fund_a by simp
qed

section \<open>The provider client (src/scrapers/morningstar_client.py)\<close>

text \<open>
  A parsed JSON value. An object is the association list of its members; Python's
  \<^verbatim>\<open>None\<close> is \<open>JNull\<close>. JSON integers and floats are both \<open>JNum\<close> (reals).
\<close>

datatype json = JNull | JBool bool | JNum real | JStr string
  | JArr "json list" | JObj "(string \<times> json) list"

text \<open>Python truthiness (\<^verbatim>\<open>if not x\<close>, \<^verbatim>\<open>x or y\<close>).\<close>

fun truthy :: "json \<Rightarrow> bool" where
  "truthy JNull = False"
| "truthy (JBool b) = b"
| "truthy (JNum x) = (x \<noteq> 0)"
| "truthy (JStr s) = (s \<noteq> [])"
| "truthy (JArr xs) = (xs \<noteq> [])"
| "truthy (JObj kvs) = (kvs \<noteq> [])"

text \<open>\<^verbatim>\<open>d.get(key, default)\<close>: only a dict has \<^verbatim>\<open>get\<close>.\<close>

fun dict_get :: "json \<Rightarrow> string \<Rightarrow> json \<Rightarrow> error + json" where
  "dict_get (JObj kvs) key dflt = Inr (case map_of kvs key of Some v \<Rightarrow> v | None \<Rightarrow> dflt)"
| "dict_get d key dflt = Inl AttributeError"

text \<open>
  A value used in arithmetic, an ordering comparison with a number, or \<^verbatim>\<open>round\<close>:
  numbers and booleans (\<^verbatim>\<open>True\<close> is 1) are accepted, anything else raises
  \<^verbatim>\<open>TypeError\<close>.
\<close>

fun num_of :: "json \<Rightarrow> error + real" where
  "num_of (JNum x) = Inr x"
| "num_of (JBool b) = Inr (if b then 1 else 0)"
| "num_of v = Inl TypeError"

definition ebind :: "error + 'a \<Rightarrow> ('a \<Rightarrow> error + 'b) \<Rightarrow> error + 'b" where
  "ebind m f = (case m of Inl e \<Rightarrow> Inl e | Inr v \<Rightarrow> f v)"

text \<open>\<^verbatim>\<open>round(x, 2)\<close>: to two decimals, ties to the even neighbour.\<close>

definition round_half_even :: "real \<Rightarrow> int" where
  "round_half_even x =
     (let f = \<lfloor>x\<rfloor>; d = x - of_int f in
      if d < 1 / 2 then f else if d > 1 / 2 then f + 1 else if even f then f else f + 1)"

definition round2 :: "real \<Rightarrow> real" where
  "round2 x = real_of_int (round_half_even (x * 100)) / 100"

subsection \<open>The transport (lines 66-109)\<close>

text \<open>
  What \<^verbatim>\<open>client.get\<close>, \<^verbatim>\<open>raise_for_status\<close> and \<^verbatim>\<open>response.json\<close> yield for a fund
  code and an endpoint: the parsed body, an \<^verbatim>\<open>HTTPStatusError\<close> with its status code,
  or any other exception. The semaphore and the delays do not change what is returned
  and are left out.
\<close>

datatype http_outcome = Body json | HTTPStatusError nat | RequestFailed

type_synonym transport = "string \<Rightarrow> string \<Rightarrow> http_outcome"

definition fetch_api :: "transport \<Rightarrow> string \<Rightarrow> string \<Rightarrow> json" where
  "fetch_api http fund_code endpoint =
     (case http fund_code endpoint of
        Body data \<Rightarrow>
          (case ebind (dict_get data ''_meta'' (JObj []))
                  (\<lambda>meta. dict_get meta ''response_status'' JNull) of
             Inl e \<Rightarrow> JNull
           | Inr status \<Rightarrow>
               if status = JStr ''200011''
               then (case dict_get data ''data'' JNull of Inl e \<Rightarrow> JNull | Inr d \<Rightarrow> d)
               else JNull)
      | HTTPStatusError status_code \<Rightarrow> JNull
      | RequestFailed \<Rightarrow> JNull)"

subsection \<open>Fees (\<^verbatim>\<open>_extract_fees_data\<close>, lines 238-313)\<close>

record fees_info =
  fees_management_fee :: real
  fees_custody_fee :: real
  fees_subscription_fee :: real
  fees_redemption_fee :: real
  fees_sales_service_fee :: real
  fees_transaction_cost :: real
  fees_other_fees :: real
  fees_total_annual_fee :: real

definition default_fees :: fees_info where
  "default_fees = \<lparr>fees_management_fee = 0.0015, fees_custody_fee = 0.0005,
     fees_subscription_fee = 0, fees_redemption_fee = 0, fees_sales_service_fee = 0,
     fees_transaction_cost = 0, fees_other_fees = 0, fees_total_annual_fee = 0.002\<rparr>"

text \<open>\<^verbatim>\<open>(fees.get(key) or dflt) / 100\<close>.\<close>

definition pct_field :: "json \<Rightarrow> string \<Rightarrow> real \<Rightarrow> error + real" where
  "pct_field fees key dflt =
     ebind (dict_get fees key JNull)
       (\<lambda>v. ebind (num_of (if truthy v then v else JNum dflt)) (\<lambda>x. Inr (x / 100)))"

text \<open>The body of the \<^verbatim>\<open>try\<close> block (lines 274-309).\<close>

definition fees_from :: "json \<Rightarrow> error + fees_info" where
  "fees_from fees =
     ebind (pct_field fees ''managementFee'' 0.15) (\<lambda>management_fee.
     ebind (pct_field fees ''custodianFee'' 0.05) (\<lambda>custody_fee.
     ebind (pct_field fees ''distributionFee'' 0) (\<lambda>sales_service_fee.
     ebind (pct_field fees ''tradeCost'' 0) (\<lambda>transaction_cost.
     ebind (pct_field fees ''otherCost'' 0) (\<lambda>other_fees.
       let subscription_fee = 0;
           redemption_fee = 0;
           total_annual_fee = management_fee + custody_fee + sales_service_fee
                                + transaction_cost + other_fees
       in Inr \<lparr>fees_management_fee = management_fee, fees_custody_fee = custody_fee,
               fees_subscription_fee = subscription_fee, fees_redemption_fee = redemption_fee,
               fees_sales_service_fee = sales_service_fee,
               fees_transaction_cost = transaction_cost, fees_other_fees = other_fees,
               fees_total_annual_fee = total_annual_fee\<rparr>)))))"

text \<open>
  The test on line 269 stands before the \<^verbatim>\<open>try\<close>: on a truthy value that is not a dict
  its \<^verbatim>\<open>get\<close> raises out of the function. Inside the \<^verbatim>\<open>try\<close> every exception gives
  the defaults.
\<close>

definition extract_fees_data :: "json \<Rightarrow> error + fees_info" where
  "extract_fees_data fees_data =
     (if \<not> truthy fees_data then Inr default_fees
      else
        ebind (dict_get fees_data ''fees'' JNull) (\<lambda>fees.
          if \<not> truthy fees then Inr default_fees
          else (case fees_from fees of Inl e \<Rightarrow> Inr default_fees | Inr info \<Rightarrow> Inr info)))"

subsection \<open>One fund (\<^verbatim>\<open>get_fund_data\<close>, lines 111-236)\<close>

text \<open>The three non-ASCII string literals of the source, as UTF-8 bytes.\<close>

definition name_placeholder :: string where
  "name_placeholder = [CHR 0xE5, CHR 0x9F, CHR 0xBA, CHR 0xE9, CHR 0x87, CHR 0x91]"

definition on_exchange :: string where
  "on_exchange = [CHR 0xE5, CHR 0x9C, CHR 0xBA, CHR 0xE5, CHR 0x86, CHR 0x85]"

definition off_exchange :: string where
  "off_exchange = [CHR 0xE5, CHR 0x9C, CHR 0xBA, CHR 0xE5, CHR 0xA4, CHR 0x96]"

definition startswith :: "string \<Rightarrow> string \<Rightarrow> bool" where
  "startswith s p = (take (length p) s = p)"

text \<open>Lines 139-144.\<close>

definition choose_name :: "(string \<rightharpoonup> json) \<Rightarrow> string \<Rightarrow> json \<Rightarrow> error + json" where
  "choose_name fund_names fund_code common_data =
     (let name = (case fund_names fund_code of None \<Rightarrow> JNull | Some v \<Rightarrow> v) in
      if truthy name then Inr name
      else
        ebind (dict_get common_data ''name'' JNull) (\<lambda>n1.
          if truthy n1 then Inr n1
          else
            ebind (dict_get common_data ''fundName'' JNull) (\<lambda>n2.
              if truthy n2 then Inr n2 else Inr (JStr (name_placeholder @ fund_code)))))"

text \<open>
  Lines 169-204. The result is \<^verbatim>\<open>yearly_return\<close>, \<^verbatim>\<open>return_3year\<close>,
  \<^verbatim>\<open>return_5year\<close>, \<^verbatim>\<open>beats_benchmark\<close> and \<^verbatim>\<open>beats_benchmark_amount\<close> as they
  are passed to the constructor. \<open>opt_round2\<close> is \<^verbatim>\<open>round(x, 2)\<close> under
  \<^verbatim>\<open>if x is not None\<close>.
\<close>

definition opt_round2 :: "json \<Rightarrow> error + real option" where
  "opt_round2 v = (if v = JNull then Inr None else ebind (num_of v) (\<lambda>x. Inr (Some (round2 x))))"

definition performance_fields ::
  "json \<Rightarrow> error + (real option \<times> real option \<times> real option \<times> bool option \<times> real option)" where
  "performance_fields performance_data =
     (if \<not> truthy performance_data then Inr (None, None, None, None, None)
      else
        ebind (dict_get performance_data ''dayEnd'' (JObj [])) (\<lambda>day_end.
        ebind (dict_get day_end ''returns'' (JObj [])) (\<lambda>returns.
        ebind (dict_get day_end ''benchmarkReturns'' (JObj [])) (\<lambda>benchmark_returns.
        ebind (dict_get returns ''YTD'' JNull) (\<lambda>yearly_return.
        ebind (dict_get returns ''Y3'' JNull) (\<lambda>return_3year.
        ebind (dict_get returns ''Y5'' JNull) (\<lambda>return_5year.
        ebind (dict_get benchmark_returns ''YTD'' JNull) (\<lambda>benchmark_return.
        ebind (if yearly_return \<noteq> JNull \<and> benchmark_return \<noteq> JNull
               then ebind (num_of yearly_return) (\<lambda>y.
                    ebind (num_of benchmark_return) (\<lambda>b.
                      Inr (Some (y > b), Some (y - b))))
               else Inr (None, None)) (\<lambda>(beats_benchmark, beats_benchmark_amount).
        ebind (opt_round2 yearly_return) (\<lambda>yearly_return.
        ebind (opt_round2 return_3year) (\<lambda>return_3year.
        ebind (opt_round2 return_5year) (\<lambda>return_5year.
        ebind (opt_round2 benchmark_return) (\<lambda>benchmark_return.
          Inr (yearly_return, return_3year, return_5year, beats_benchmark,
               map_option round2 beats_benchmark_amount))))))))))))))"

text \<open>
  Validation by the model class for the two values that come from the payload as they
  are: a \<^verbatim>\<open>str\<close> field takes a string, an \<^verbatim>\<open>Optional[str]\<close> field a string or
  \<^verbatim>\<open>None\<close>; anything else is a validation error.
\<close>

fun as_str :: "json \<Rightarrow> error + string" where
  "as_str (JStr s) = Inr s"
| "as_str v = Inl ValidationError"

fun as_opt_str :: "json \<Rightarrow> error + string option" where
  "as_opt_str JNull = Inr None"
| "as_opt_str (JStr s) = Inr (Some s)"
| "as_opt_str v = Inl ValidationError"

text \<open>The body of the \<^verbatim>\<open>try\<close> block (lines 137-230).\<close>

definition build_fund_data ::
  "(string \<rightharpoonup> json) \<Rightarrow> string \<Rightarrow> json \<Rightarrow> json \<Rightarrow> json \<Rightarrow> error + FundData" where
  "build_fund_data fund_names fund_code common_data performance_data fees_data =
     ebind (choose_name fund_names fund_code common_data) (\<lambda>name.
       let fund_type =
             (if startswith fund_code ''51'' \<or> startswith fund_code ''588''
                 \<or> startswith fund_code ''159'' \<or> startswith fund_code ''16''
                 \<or> startswith fund_code ''15''
              then on_exchange else off_exchange)
       in
     ebind (dict_get common_data ''inceptionDate'' (JStr [])) (\<lambda>establish_date.
     ebind (dict_get common_data ''fundSize'' (JNum 0)) (\<lambda>fund_size_raw.
     ebind (if truthy fund_size_raw
            then ebind (num_of fund_size_raw) (\<lambda>x. Inr (round2 (x / 100000000)))
            else Inr 0) (\<lambda>scale.
     ebind (if truthy performance_data
            then dict_get performance_data ''benchmarkName'' (JStr [])
            else Inr (JStr [])) (\<lambda>benchmark.
     ebind (extract_fees_data fees_data) (\<lambda>fees_info.
     ebind (performance_fields performance_data)
       (\<lambda>(yearly_return, return_3year, return_5year, beats_benchmark, beats_benchmark_amount).
     ebind (as_str name) (\<lambda>name.
     ebind (as_opt_str establish_date) (\<lambda>establish_date.
     ebind (as_opt_str benchmark) (\<lambda>benchmark.
       Inr \<lparr>code = fund_code, name = name,
            management_fee = fees_management_fee fees_info,
            custody_fee = fees_custody_fee fees_info,
            subscription_fee = Some (fees_subscription_fee fees_info),
            redemption_fee = Some (fees_redemption_fee fees_info),
            sales_service_fee = Some (fees_sales_service_fee fees_info),
            transaction_cost = Some (fees_transaction_cost fees_info),
            other_fees = Some (fees_other_fees fees_info),
            total_annual_fee = Some (fees_total_annual_fee fees_info),
            scale = scale, yearly_return = yearly_return, return_3year = return_3year,
            return_5year = return_5year, establish_date = establish_date,
            benchmark = benchmark, beats_benchmark = beats_benchmark,
            beats_benchmark_amount = beats_benchmark_amount,
            fund_type = Some fund_type\<rparr>))))))))))"

text \<open>
  \<^verbatim>\<open>get_fund_data\<close>: \<^verbatim>\<open>_fetch_api\<close> never raises, so the three gathered results are
  values; without basic data, or on any exception in the \<^verbatim>\<open>try\<close>, the result is
  \<^verbatim>\<open>None\<close>.
\<close>

definition get_fund_data :: "transport \<Rightarrow> (string \<rightharpoonup> json) \<Rightarrow> string \<Rightarrow> FundData option" where
  "get_fund_data http fund_names fund_code =
     (let common_data = fetch_api http fund_code ''common-data'';
          performance_data = fetch_api http fund_code ''performance'';
          fees_data = fetch_api http fund_code ''fees''
      in if \<not> truthy common_data then None
         else (case build_fund_data fund_names fund_code common_data performance_data fees_data of
                 Inl e \<Rightarrow> None
               | Inr fund_data \<Rightarrow> Some fund_data))"

subsection \<open>The batch (\<^verbatim>\<open>batch_get_fund_data\<close>, lines 315-366)\<close>

text \<open>
  The inner loop over \<^verbatim>\<open>enumerate(batch_results)\<close>. A gathered result is an exception
  (\<open>Inl\<close>), \<^verbatim>\<open>None\<close> or a fund.
\<close>

fun collect_results ::
  "string list \<Rightarrow> (error + FundData option) list \<Rightarrow> FundData list \<times> string list
     \<Rightarrow> FundData list \<times> string list" where
  "collect_results (c # batch) (Inl e # results) (funds, failed) =
     collect_results batch results (funds, failed @ [c])"
| "collect_results (c # batch) (Inr (Some fund_data) # results) (funds, failed) =
     collect_results batch results (funds @ [fund_data], failed)"
| "collect_results (c # batch) (Inr None # results) (funds, failed) =
     collect_results batch results (funds, failed)"
| "collect_results batch results acc = acc"

text \<open>
  \<^verbatim>\<open>for i in range(0, total, batch_size)\<close> as a loop on \<open>i\<close>. The case
  \<open>batch_size = 0\<close> never reaches the loop (\<^verbatim>\<open>range\<close> raises), it only makes the
  function total.
\<close>

function batch_loop ::
  "transport \<Rightarrow> (string \<rightharpoonup> json) \<Rightarrow> nat \<Rightarrow> string list \<Rightarrow> nat
     \<Rightarrow> FundData list \<times> string list \<Rightarrow> FundData list \<times> string list" where
  "batch_loop http fund_names batch_size fund_codes i acc =
     (if batch_size = 0 \<or> i \<ge> length fund_codes then acc
      else
        let batch = take batch_size (drop i fund_codes);
            batch_results = map (\<lambda>code. Inr (get_fund_data http fund_names code)) batch
        in batch_loop http fund_names batch_size fund_codes (i + batch_size)
             (collect_results batch batch_results acc))"
  by pat_completeness auto
termination
  by (relation "measure (\<lambda>(http, fund_names, batch_size, fund_codes, i, acc). length fund_codes - i)")
    auto

declare batch_loop.simps [simp del]

text \<open>
  The state when the loop ends: the collected funds and the list \<^verbatim>\<open>failed\<close>.
  \<^verbatim>\<open>range(0, total, 0)\<close> raises \<^verbatim>\<open>ValueError\<close>.
\<close>

definition batch_run ::
  "transport \<Rightarrow> (string \<rightharpoonup> json) \<Rightarrow> nat \<Rightarrow> string list
     \<Rightarrow> error + (FundData list \<times> string list)" where
  "batch_run http fund_names max_concurrent fund_codes =
     (let batch_size = max_concurrent in
      if batch_size = 0 then Inl ValueError
      else Inr (batch_loop http fund_names batch_size fund_codes 0 ([], [])))"

text \<open>The function returns \<^verbatim>\<open>funds\<close>; \<^verbatim>\<open>failed\<close> is only counted in a message.\<close>

definition batch_get_fund_data ::
  "transport \<Rightarrow> (string \<rightharpoonup> json) \<Rightarrow> nat \<Rightarrow> string list \<Rightarrow> error + FundData list" where
  "batch_get_fund_data http fund_names max_concurrent fund_codes =
     (case batch_run http fund_names max_concurrent fund_codes of
        Inl e \<Rightarrow> Inl e
      | Inr (funds, failed) \<Rightarrow> Inr funds)"

section \<open>A worked provider\<close>

text \<open>
  A provider that knows every fund code except 000404 (answered with status 404 on
  every endpoint); for the code B it reports no benchmark returns. Provider values are
  percentages: a management fee of 0.5 (percent) and a year-to-date return of 4.12
  (percent).
\<close>

definition wrap_ok :: "json \<Rightarrow> json" where
  "wrap_ok d = JObj [(''_meta'', JObj [(''response_status'', JStr ''200011'')]), (''data'', d)]"

definition demo_common :: json where
  "demo_common = JObj [(''name'', JStr ''Dividend ETF''), (''inceptionDate'', JStr ''2020-03-20''),
     (''fundSize'', JNum 461000000)]"

definition demo_returns :: json where
  "demo_returns = JObj [(''YTD'', JNum 4.12), (''Y3'', JNum 20.5), (''Y5'', JNum 40)]"

definition demo_performance :: json where
  "demo_performance = JObj [(''benchmarkName'', JStr ''CSI Dividend''),
     (''dayEnd'', JObj [(''returns'', demo_returns),
                        (''benchmarkReturns'', JObj [(''YTD'', JNum 9.19)])])]"

definition demo_performance_no_benchmark :: json where
  "demo_performance_no_benchmark = JObj [(''benchmarkName'', JStr ''CSI Dividend''),
     (''dayEnd'', JObj [(''returns'', demo_returns)])]"

definition demo_fee_table :: json where
  "demo_fee_table = JObj [(''managementFee'', JNum 0.5), (''custodianFee'', JNum 0.1),
     (''distributionFee'', JNum 0), (''tradeCost'', JNum 0.03), (''otherCost'', JNum 0.02)]"

definition demo_fees :: json where
  "demo_fees = JObj [(''fees'', demo_fee_table)]"

definition demo_http :: transport where
  "demo_http fund_code endpoint =
     (if fund_code = ''000404'' then HTTPStatusError 404
      else if endpoint = ''common-data'' then Body (wrap_ok demo_common)
      else if endpoint = ''performance''
        then Body (wrap_ok (if fund_code = ''B'' then demo_performance_no_benchmark
                            else demo_performance))
      else if endpoint = ''fees'' then Body (wrap_ok demo_fees)
      else RequestFailed)"

definition demo_entity :: "string \<Rightarrow> FundData" where
  "demo_entity c = \<lparr>code = c, name = ''Dividend ETF'', management_fee = 0.005,
     custody_fee = 0.001, subscription_fee = Some 0, redemption_fee = Some 0,
     sales_service_fee = Some 0, transaction_cost = Some 0.0003, other_fees = Some 0.0002,
     total_annual_fee = Some 0.0065, scale = 4.61, yearly_return = Some 4.12,
     return_3year = Some 20.5, return_5year = Some 40, establish_date = Some ''2020-03-20'',
     benchmark = Some ''CSI Dividend'', beats_benchmark = Some False,
     beats_benchmark_amount = Some (- 5.07), fund_type = Some off_exchange\<rparr>"

lemma ebind_simps [simp]: "ebind (Inl e) f = Inl e" "ebind (Inr v) f = f v"
  by (simp_all add: ebind_def)

lemma demo_fetch:
  "fetch_api demo_http ''A'' ''common-data'' = demo_common"
  "fetch_api demo_http ''A'' ''performance'' = demo_performance"
  "fetch_api demo_http ''A'' ''fees'' = demo_fees"
  "fetch_api demo_http ''B'' ''common-data'' = demo_common"
  "fetch_api demo_http ''B'' ''performance'' = demo_performance_no_benchmark"
  "fetch_api demo_http ''B'' ''fees'' = demo_fees"
  "fetch_api demo_http ''000404'' ''common-data'' = JNull"
  "fetch_api demo_http ''000404'' ''performance'' = JNull"
  "fetch_api demo_http ''000404'' ''fees'' = JNull"
  by (simp_all add: fetch_api_def demo_http_def wrap_ok_def)

lemma demo_fees_info:
  "extract_fees_data demo_fees
     = Inr \<lparr>fees_management_fee = 0.005, fees_custody_fee = 0.001, fees_subscription_fee = 0,
            fees_redemption_fee = 0, fees_sales_service_fee = 0,
            fees_transaction_cost = 0.0003, fees_other_fees = 0.0002,
            fees_total_annual_fee = 0.0065\<rparr>"
  by (simp add: extract_fees_data_def fees_from_def pct_field_def demo_fees_def
      demo_fee_table_def)

lemma demo_performance_fields:
  "performance_fields demo_performance
     = Inr (Some 4.12, Some 20.5, Some 40, Some False, Some (- 5.07))"
  "performance_fields demo_performance_no_benchmark
     = Inr (Some 4.12, Some 20.5, Some 40, None, None)"
  by (simp_all add: performance_fields_def opt_round2_def demo_performance_def
      demo_performance_no_benchmark_def demo_returns_def round2_def round_half_even_def)

lemma demo_get:
  "get_fund_data demo_http Map.empty ''A'' = Some (demo_entity ''A'')"
  "get_fund_data demo_http Map.empty ''B''
     = Some ((demo_entity ''B'')\<lparr>beats_benchmark := None, beats_benchmark_amount := None\<rparr>)"
  "get_fund_data demo_http Map.empty ''000404'' = None"
  by (simp_all add: get_fund_data_def demo_fetch build_fund_data_def choose_name_def
      demo_fees_info performance_fields_def opt_round2_def startswith_def demo_entity_def
      round2_def round_half_even_def demo_common_def demo_performance_def
      demo_performance_no_benchmark_def demo_returns_def)

section \<open>The batch returns one entity per successful fetch, in input order\<close>

lemma map_filter_append:
  "List.map_filter f (xs @ ys) = List.map_filter f xs @ List.map_filter f ys"
  by (simp add: List.map_filter_def)

lemma collect_results_eq:
  "collect_results batch (map (\<lambda>c. Inr (g c)) batch) (funds, failed)
     = (funds @ List.map_filter g batch, failed)"
proof (induction batch arbitrary: funds)
  case Nil
  then show ?case by (simp add: List.map_filter_simps)
next
  case (Cons c batch)
  then show ?case by (cases "g c") (simp_all add: List.map_filter_simps)
qed

lemma batch_loop_eq:
  "0 < n \<Longrightarrow>
     batch_loop http fund_names n fund_codes i (funds, failed)
       = (funds @ List.map_filter (get_fund_data http fund_names) (drop i fund_codes), failed)"
proof (induction "length fund_codes - i" arbitrary: i funds rule: less_induct)
  case less
  show ?case
  proof (cases "i \<ge> length fund_codes")
    case True
    then show ?thesis using less.prems by (subst batch_loop.simps) simp
  next
    case False
    have split: "drop i fund_codes = take n (drop i fund_codes) @ drop (i + n) fund_codes"
      by (metis append_take_drop_id drop_drop add.commute)
    have "batch_loop http fund_names n fund_codes i (funds, failed)
        = batch_loop http fund_names n fund_codes (i + n)
            (funds @ List.map_filter (get_fund_data http fund_names) (take n (drop i fund_codes)),
             failed)"
      using False less.prems
      by (subst batch_loop.simps) (simp add: collect_results_eq Let_def)
    also have "\<dots> = ((funds @ List.map_filter (get_fund_data http fund_names)
                           (take n (drop i fund_codes)))
                       @ List.map_filter (get_fund_data http fund_names) (drop (i + n) fund_codes),
                     failed)"
      using False less.prems by (intro less.hyps) auto
    also have "\<dots> = (funds @ List.map_filter (get_fund_data http fund_names) (drop i fund_codes),
                     failed)"
      by (subst (2) split) (simp add: map_filter_append)
    finally show ?thesis .
  qed
qed

lemma batch_run_eq:
  "0 < n \<Longrightarrow>
     batch_run http fund_names n fund_codes
       = Inr (List.map_filter (get_fund_data http fund_names) fund_codes, [])"
  using batch_loop_eq [of n http fund_names fund_codes 0 "[]" "[]"]
  by (simp add: batch_run_def)

lemma ebind_InrE:
  assumes "ebind m f = Inr r"
  obtains v where "m = Inr v" "f v = Inr r"
  using assms by (cases m) simp_all

lemma build_fund_data_code:
  "build_fund_data fund_names c common performance fees = Inr fund \<Longrightarrow> code fund = c"
  unfolding build_fund_data_def Let_def
  by (auto split: prod.splits elim!: ebind_InrE)

lemma get_fund_data_code:
  "get_fund_data http fund_names c = Some fund \<Longrightarrow> code fund = c"
  by (auto simp: get_fund_data_def Let_def split: if_splits sum.splits
      dest: build_fund_data_code)

lemma map_filter_all_Some:
  "\<forall>c \<in> set cs. \<exists>f. g c = Some f \<and> h f = c \<Longrightarrow> map h (List.map_filter g cs) = cs"
  by (induction cs) (auto simp: List.map_filter_simps)

text \<open>
  C3, as stated, fails: for the identifiers A, B, A the batch returns three entities,
  two of them for A.
\<close>

theorem batch_dedup_counterexample:
  "batch_get_fund_data demo_http Map.empty 10 [''A'', ''B'', ''A'']
     = Inr [demo_entity ''A'',
            (demo_entity ''B'')\<lparr>beats_benchmark := None, beats_benchmark_amount := None\<rparr>,
            demo_entity ''A'']
   \<and> code (demo_entity ''A'') = ''A''
   \<and> length (filter (\<lambda>f. code f = ''A'')
        [demo_entity ''A'',
         (demo_entity ''B'')\<lparr>beats_benchmark := None, beats_benchmark_amount := None\<rparr>,
         demo_entity ''A'']) = 2"
  by (simp add: batch_get_fund_data_def batch_run_eq List.map_filter_simps demo_get
      demo_entity_def)

text \<open>
  C3, amended. With a positive concurrency cap the batch does not deduplicate: it
  returns the entities of the identifiers whose fetch gives an entity, one per position
  of the input and in input order, duplicates included; when every fetch succeeds the
  codes of the returned entities are the input sequence itself.
\<close>

theorem batch_keeps_every_occurrence:
  assumes "0 < max_concurrent"
  shows "batch_get_fund_data http fund_names max_concurrent fund_codes
           = Inr (List.map_filter (get_fund_data http fund_names) fund_codes)
       \<and> ((\<forall>c \<in> set fund_codes. get_fund_data http fund_names c \<noteq> None) \<longrightarrow>
            map code (List.map_filter (get_fund_data http fund_names) fund_codes) = fund_codes)"
proof (intro conjI impI)
  show "batch_get_fund_data http fund_names max_concurrent fund_codes
           = Inr (List.map_filter (get_fund_data http fund_names) fund_codes)"
    using assms by (simp add: batch_get_fund_data_def batch_run_eq)
next
  assume "\<forall>c \<in> set fund_codes. get_fund_data http fund_names c \<noteq> None"
  then have "\<forall>c \<in> set fund_codes. \<exists>f. get_fund_data http fund_names c = Some f \<and> code f = c"
    using get_fund_data_code by fastforce
  then show "map code (List.map_filter (get_fund_data http fund_names) fund_codes) = fund_codes"
    by (rule map_filter_all_Some)
qed

theorem batch_keeps_every_occurrence_witness:
  "(0::nat) < 2
   \<and> batch_get_fund_data demo_http Map.empty 2 [''A'', ''B'', ''A'']
       = Inr [demo_entity ''A'',
              (demo_entity ''B'')\<lparr>beats_benchmark := None, beats_benchmark_amount := None\<rparr>,
              demo_entity ''A'']
   \<and> map code [demo_entity ''A'',
              (demo_entity ''B'')\<lparr>beats_benchmark := None, beats_benchmark_amount := None\<rparr>,
              demo_entity ''A''] = [''A'', ''B'', ''A'']"
proof -
  have pos: "(0::nat) < 2" by simp
  have all: "\<forall>c \<in> set [''A'', ''B'', ''A'']. get_fund_data demo_http Map.empty c \<noteq> None"
    by (simp add: demo_get)
  show ?thesis
    using batch_keeps_every_occurrence [OF pos, of demo_http Map.empty "[''A'', ''B'', ''A'']"] all
    by (simp add: List.map_filter_simps demo_get)
qed

section \<open>Failures do not abort the batch, and are not reported\<close>

lemma get_fund_data_no_common:
  "fetch_api http c ''common-data'' = JNull \<Longrightarrow> get_fund_data http fund_names c = None"
  by (simp add: get_fund_data_def)

lemma length_map_filter:
  "length (List.map_filter g cs) = length (filter (\<lambda>c. g c \<noteq> None) cs)"
  by (induction cs) (auto simp: List.map_filter_simps)

lemma set_map_filter:
  "set (List.map_filter g cs) = {f. \<exists>c \<in> set cs. g c = Some f}"
  by (induction cs) (auto simp: List.map_filter_simps split: option.splits)

lemma map_code_map_filter:
  "map code (List.map_filter (get_fund_data http fund_names) cs)
     = filter (\<lambda>c. get_fund_data http fund_names c \<noteq> None) cs"
  by (induction cs) (auto simp: List.map_filter_simps dest: get_fund_data_code)

text \<open>
  C5, as stated, fails: of the identifiers A, 000404 and B the second is answered with
  status 404. The value returned is the list of the two entities and nothing else;
  the list \<^verbatim>\<open>failed\<close> inside the function is empty when the loop ends.
\<close>

theorem batch_failure_list_counterexample:
  "demo_http ''000404'' ''common-data'' = HTTPStatusError 404
   \<and> batch_get_fund_data demo_http Map.empty 10 [''A'', ''000404'', ''B'']
       = Inr [demo_entity ''A'',
              (demo_entity ''B'')\<lparr>beats_benchmark := None, beats_benchmark_amount := None\<rparr>]
   \<and> batch_run demo_http Map.empty 10 [''A'', ''000404'', ''B'']
       = Inr ([demo_entity ''A'',
               (demo_entity ''B'')\<lparr>beats_benchmark := None, beats_benchmark_amount := None\<rparr>],
              [])"
  by (simp add: batch_get_fund_data_def batch_run_eq List.map_filter_simps demo_get
      demo_http_def)

text \<open>
  C5, amended. With a positive concurrency cap the batch always returns, whatever the
  fetches do. It returns exactly the entities of the identifiers whose fetch succeeded,
  in input order (their codes are the input sequence without the failed identifiers),
  and no failure list. An identifier whose basic-data request ends in an HTTP status
  error, 404 included, or in any other exception, gives no entity.
\<close>

theorem batch_survives_failures:
  assumes "0 < max_concurrent"
  shows "\<exists>funds. batch_get_fund_data http fund_names max_concurrent fund_codes = Inr funds
       \<and> set funds = {f. \<exists>c \<in> set fund_codes. get_fund_data http fund_names c = Some f}
       \<and> length funds
           = length (filter (\<lambda>c. get_fund_data http fund_names c \<noteq> None) fund_codes)
       \<and> map code funds
           = filter (\<lambda>c. get_fund_data http fund_names c \<noteq> None) fund_codes
       \<and> (\<forall>c status. http c ''common-data'' = HTTPStatusError status
             \<longrightarrow> get_fund_data http fund_names c = None)
       \<and> (\<forall>c. http c ''common-data'' = RequestFailed
             \<longrightarrow> get_fund_data http fund_names c = None)"
proof -
  have "batch_get_fund_data http fund_names max_concurrent fund_codes
          = Inr (List.map_filter (get_fund_data http fund_names) fund_codes)"
    using assms by (simp add: batch_get_fund_data_def batch_run_eq)
  moreover have "http c ''common-data'' = HTTPStatusError status
      \<Longrightarrow> get_fund_data http fund_names c = None" for c status
    by (intro get_fund_data_no_common) (simp add: fetch_api_def)
  moreover have "http c ''common-data'' = RequestFailed
      \<Longrightarrow> get_fund_data http fund_names c = None" for c
    by (intro get_fund_data_no_common) (simp add: fetch_api_def)
  ultimately show ?thesis
    using length_map_filter [of "get_fund_data http fund_names" fund_codes]
      set_map_filter [of "get_fund_data http fund_names" fund_codes]
      map_code_map_filter [of http fund_names fund_codes]
    by auto
qed

theorem batch_survives_failures_witness:
  "(0::nat) < 10
   \<and> demo_http ''000404'' ''common-data'' = HTTPStatusError 404
   \<and> get_fund_data demo_http Map.empty ''000404'' = None
   \<and> batch_get_fund_data demo_http Map.empty 10 [''A'', ''000404'', ''B'']
       = Inr [demo_entity ''A'',
              (demo_entity ''B'')\<lparr>beats_benchmark := None, beats_benchmark_amount := None\<rparr>]
   \<and> length (filter (\<lambda>c. get_fund_data demo_http Map.empty c \<noteq> None) [''A'', ''000404'', ''B''])
       = 2
   \<and> filter (\<lambda>c. get_fund_data demo_http Map.empty c \<noteq> None) [''A'', ''000404'', ''B'']
       = [''A'', ''B'']"
proof -
  have pos: "(0::nat) < 10" by simp
  have h: "demo_http ''000404'' ''common-data'' = HTTPStatusError 404"
    by (simp add: demo_http_def)
  obtain funds where
    f: "batch_get_fund_data demo_http Map.empty 10 [''A'', ''000404'', ''B''] = Inr funds"
      "length funds
         = length (filter (\<lambda>c. get_fund_data demo_http Map.empty c \<noteq> None) [''A'', ''000404'', ''B''])"
      "map code funds
         = filter (\<lambda>c. get_fund_data demo_http Map.empty c \<noteq> None) [''A'', ''000404'', ''B'']"
      "get_fund_data demo_http Map.empty ''000404'' = None"
    using batch_survives_failures [OF pos, of demo_http Map.empty "[''A'', ''000404'', ''B'']"] h
    by blast
  show ?thesis
    using f pos h
    by (simp add: batch_get_fund_data_def batch_run_eq List.map_filter_simps demo_get)
qed

section \<open>What a fetched entity holds\<close>

text \<open>
  The value read by \<^verbatim>\<open>performance_data.get("dayEnd", {}).get(table, {}).get(key)\<close>
  (lines 178-188), for the tables \<^verbatim>\<open>returns\<close> and \<^verbatim>\<open>benchmarkReturns\<close>.
\<close>

definition day_end_get :: "json \<Rightarrow> string \<Rightarrow> string \<Rightarrow> error + json" where
  "day_end_get performance_data table key =
     ebind (dict_get performance_data ''dayEnd'' (JObj [])) (\<lambda>day_end.
     ebind (dict_get day_end table (JObj [])) (\<lambda>values. dict_get values key JNull))"

lemma dict_get_truthy:
  "dict_get d key dflt = Inr v \<Longrightarrow> v \<noteq> dflt \<Longrightarrow> truthy d"
  by (cases d) (auto split: option.splits)

lemma day_end_get_truthy:
  assumes "day_end_get p g key = Inr v" "v \<noteq> JNull"
  shows "truthy p"
proof -
  obtain de vs where de: "dict_get p ''dayEnd'' (JObj []) = Inr de"
    and vs: "dict_get de g (JObj []) = Inr vs" and v: "dict_get vs key JNull = Inr v"
    using assms(1) unfolding day_end_get_def by (elim ebind_InrE) blast
  have "truthy vs" using v assms(2) by (rule dict_get_truthy)
  then have "vs \<noteq> JObj []" by auto
  with vs have "truthy de" by (rule dict_get_truthy)
  then have "de \<noteq> JObj []" by auto
  with de show ?thesis by (rule dict_get_truthy)
qed

lemma performance_fields_falsy:
  "\<not> truthy p \<Longrightarrow> performance_fields p = Inr (None, None, None, None, None)"
  by (simp add: performance_fields_def)

lemma performance_fields_reads:
  assumes "performance_fields p = Inr (yr, r3, r5, bb, bba)" "truthy p"
  shows "\<exists>vy vb. day_end_get p ''returns'' ''YTD'' = Inr vy
           \<and> day_end_get p ''benchmarkReturns'' ''YTD'' = Inr vb"
  using assms unfolding performance_fields_def day_end_get_def
  by (auto elim!: ebind_InrE)

lemma performance_fields_returns:
  assumes "performance_fields p = Inr (yr, r3, r5, bb, bba)" "truthy p"
  shows "day_end_get p ''returns'' ''YTD'' = Inr vy \<Longrightarrow> opt_round2 vy = Inr yr"
    and "day_end_get p ''returns'' ''Y3'' = Inr v3 \<Longrightarrow> opt_round2 v3 = Inr r3"
    and "day_end_get p ''returns'' ''Y5'' = Inr v5 \<Longrightarrow> opt_round2 v5 = Inr r5"
  using assms unfolding performance_fields_def day_end_get_def
  by (auto elim!: ebind_InrE split: if_splits prod.splits)

lemma performance_fields_excess:
  assumes "performance_fields p = Inr (yr, r3, r5, bb, bba)" "truthy p"
    and "day_end_get p ''returns'' ''YTD'' = Inr vy"
    and "day_end_get p ''benchmarkReturns'' ''YTD'' = Inr vb"
  shows "vy = JNull \<or> vb = JNull \<Longrightarrow> bb = None \<and> bba = None"
    and "vy \<noteq> JNull \<Longrightarrow> vb \<noteq> JNull \<Longrightarrow>
           \<exists>y b. num_of vy = Inr y \<and> num_of vb = Inr b
             \<and> bb = Some (y > b) \<and> bba = Some (round2 (y - b))"
  using assms unfolding performance_fields_def day_end_get_def
  by (auto elim!: ebind_InrE split: if_splits prod.splits)

lemma build_fund_data_Inr:
  assumes "build_fund_data fund_names c common perf fees = Inr fund"
  shows "\<exists>fi yr r3 r5 bb bba.
           extract_fees_data fees = Inr fi
         \<and> performance_fields perf = Inr (yr, r3, r5, bb, bba)
         \<and> management_fee fund = fees_management_fee fi
         \<and> custody_fee fund = fees_custody_fee fi
         \<and> subscription_fee fund = Some (fees_subscription_fee fi)
         \<and> redemption_fee fund = Some (fees_redemption_fee fi)
         \<and> sales_service_fee fund = Some (fees_sales_service_fee fi)
         \<and> transaction_cost fund = Some (fees_transaction_cost fi)
         \<and> other_fees fund = Some (fees_other_fees fi)
         \<and> total_annual_fee fund = Some (fees_total_annual_fee fi)
         \<and> yearly_return fund = yr \<and> return_3year fund = r3 \<and> return_5year fund = r5
         \<and> beats_benchmark fund = bb \<and> beats_benchmark_amount fund = bba"
  using assms unfolding build_fund_data_def Let_def
  by (auto split: prod.splits elim!: ebind_InrE)

lemma get_fund_data_Some:
  "get_fund_data http fund_names c = Some fund \<Longrightarrow>
     build_fund_data fund_names c (fetch_api http c ''common-data'')
       (fetch_api http c ''performance'') (fetch_api http c ''fees'') = Inr fund"
  by (auto simp: get_fund_data_def Let_def split: if_splits sum.splits)

lemma fees_from_sum:
  "fees_from fees = Inr fi \<Longrightarrow>
     fees_subscription_fee fi = 0 \<and> fees_redemption_fee fi = 0
   \<and> fees_total_annual_fee fi = fees_management_fee fi + fees_custody_fee fi
        + fees_sales_service_fee fi + fees_transaction_cost fi + fees_other_fees fi"
  unfolding fees_from_def Let_def
  by (auto elim!: ebind_InrE)

lemma extract_fees_data_sum:
  assumes "extract_fees_data fees_data = Inr fi"
  shows "fees_subscription_fee fi = 0 \<and> fees_redemption_fee fi = 0
   \<and> fees_total_annual_fee fi = fees_management_fee fi + fees_custody_fee fi
        + fees_sales_service_fee fi + fees_transaction_cost fi + fees_other_fees fi"
proof -
  have dflt: ?thesis if "fi = default_fees"
    using that by (simp add: default_fees_def)
  show ?thesis
  proof (cases "truthy fees_data")
    case False
    then have "fi = default_fees" using assms by (simp add: extract_fees_data_def)
    then show ?thesis by (rule dflt)
  next
    case True
    show ?thesis
    proof (cases "dict_get fees_data ''fees'' JNull")
      case (Inl e)
      then show ?thesis using assms True by (simp add: extract_fees_data_def)
    next
      case (Inr fees)
      then have r: "(if \<not> truthy fees then Inr default_fees
           else (case fees_from fees of Inl e \<Rightarrow> Inr default_fees | Inr info \<Rightarrow> Inr info))
             = (Inr fi :: error + fees_info)"
        using assms True by (simp add: extract_fees_data_def)
      show ?thesis
      proof (cases "fees_from fees")
        case (Inl e)
        then have "fi = default_fees" using r by (auto split: if_splits)
        then show ?thesis by (rule dflt)
      next
        case info: (Inr info)
        show ?thesis
        proof (cases "truthy fees")
          case True
          then have "fi = info" using r info by simp
          then show ?thesis using fees_from_sum [OF info] by simp
        next
          case False
          then have "fi = default_fees" using r by simp
          then show ?thesis by (rule dflt)
        qed
      qed
    qed
  qed
qed

text \<open>The five keys read from the fee block (lines 275-290).\<close>

definition fee_keys :: "string list" where
  "fee_keys = [''managementFee'', ''custodianFee'', ''distributionFee'', ''tradeCost'',
     ''otherCost'']"

lemma pct_field_reading:
  assumes "dict_get fees key JNull = Inr v" "pct_field fees key d = Inr r"
  shows "(\<not> truthy v \<longrightarrow> r = d / 100)
       \<and> (\<forall>x. truthy v \<and> num_of v = Inr x \<longrightarrow> r = x / 100)"
  using assms by (auto simp: pct_field_def)

lemma pct_field_readable:
  assumes "dict_get fees key JNull = Inr v" "\<not> truthy v \<or> (\<exists>x. num_of v = Inr x)"
  shows "\<exists>r. pct_field fees key d = Inr r"
proof (cases "truthy v")
  case False
  then have "pct_field fees key d = Inr (d / 100)"
    using assms(1) by (simp add: pct_field_def)
  then show ?thesis ..
next
  case True
  then obtain x where "num_of v = Inr x" using assms(2) by auto
  then have "pct_field fees key d = Inr (x / 100)"
    using assms(1) True by (simp add: pct_field_def)
  then show ?thesis ..
qed

lemma pct_field_raises:
  "dict_get fees key JNull = Inr v \<Longrightarrow> truthy v \<Longrightarrow> \<forall>x. num_of v \<noteq> Inr x
     \<Longrightarrow> \<exists>e. pct_field fees key d = Inl e"
  by (cases "num_of v") (auto simp: pct_field_def)

lemma pct_field_not_dict:
  "\<forall>kvs. fees \<noteq> JObj kvs \<Longrightarrow> pct_field fees key d = Inl AttributeError"
  by (cases fees) (simp_all add: pct_field_def)

lemma fees_from_Inr:
  assumes "fees_from fees = Inr fi"
  shows "pct_field fees ''managementFee'' 0.15 = Inr (fees_management_fee fi)"
    and "pct_field fees ''custodianFee'' 0.05 = Inr (fees_custody_fee fi)"
    and "pct_field fees ''distributionFee'' 0 = Inr (fees_sales_service_fee fi)"
    and "pct_field fees ''tradeCost'' 0 = Inr (fees_transaction_cost fi)"
    and "pct_field fees ''otherCost'' 0 = Inr (fees_other_fees fi)"
  using assms unfolding fees_from_def Let_def by (auto elim!: ebind_InrE)

lemma fees_from_readable:
  assumes "pct_field fees ''managementFee'' 0.15 = Inr rm"
    and "pct_field fees ''custodianFee'' 0.05 = Inr rc"
    and "pct_field fees ''distributionFee'' 0 = Inr rs"
    and "pct_field fees ''tradeCost'' 0 = Inr rt"
    and "pct_field fees ''otherCost'' 0 = Inr ro"
  shows "\<exists>info. fees_from fees = Inr info"
  using assms by (simp add: fees_from_def)

lemma extract_fees_data_cases:
  assumes "extract_fees_data fees_data = Inr fi"
  shows "fi = default_fees
       \<or> (\<exists>fees. truthy fees_data \<and> dict_get fees_data ''fees'' JNull = Inr fees
             \<and> truthy fees \<and> fees_from fees = Inr fi)"
proof (cases "truthy fees_data")
  case False
  then show ?thesis using assms by (simp add: extract_fees_data_def)
next
  case True
  show ?thesis
  proof (cases "dict_get fees_data ''fees'' JNull")
    case (Inl e)
    then show ?thesis using assms True by (simp add: extract_fees_data_def)
  next
    case (Inr fees)
    then have r: "(if \<not> truthy fees then Inr default_fees
         else (case fees_from fees of Inl e \<Rightarrow> Inr default_fees | Inr info \<Rightarrow> Inr info))
           = (Inr fi :: error + fees_info)"
      using assms True by (simp add: extract_fees_data_def)
    show ?thesis
    proof (cases "truthy fees")
      case False
      then show ?thesis using r by simp
    next
      case fees_truthy: True
      show ?thesis
      proof (cases "fees_from fees")
        case (Inl e)
        then show ?thesis using r fees_truthy by simp
      next
        case info: (Inr info)
        then have "fi = info" using r fees_truthy by simp
        then show ?thesis using True Inr fees_truthy info by simp
      qed
    qed
  qed
qed

lemma extract_fees_data_default:
  assumes "extract_fees_data fees_data = Inr fi"
    and "\<not> truthy fees_data
       \<or> (\<exists>fees. dict_get fees_data ''fees'' JNull = Inr fees
             \<and> (\<not> truthy fees \<or> (\<exists>e. fees_from fees = Inl e)))"
  shows "fi = default_fees"
  using extract_fees_data_cases [OF assms(1)] assms(2) by auto

lemma falsy_dict_get:
  "dict_get fees key JNull = Inr v \<Longrightarrow> \<not> truthy fees \<Longrightarrow> v = JNull"
  by (cases fees) auto

lemma extract_fees_data_readable:
  assumes fi: "extract_fees_data fees_data = Inr fi"
    and fees: "dict_get fees_data ''fees'' JNull = Inr fees"
    and vm: "dict_get fees ''managementFee'' JNull = Inr vm"
      "\<not> truthy vm \<or> (\<exists>x. num_of vm = Inr x)"
    and vc: "dict_get fees ''custodianFee'' JNull = Inr vc"
      "\<not> truthy vc \<or> (\<exists>x. num_of vc = Inr x)"
    and vs: "dict_get fees ''distributionFee'' JNull = Inr vs"
      "\<not> truthy vs \<or> (\<exists>x. num_of vs = Inr x)"
    and vt: "dict_get fees ''tradeCost'' JNull = Inr vt"
      "\<not> truthy vt \<or> (\<exists>x. num_of vt = Inr x)"
    and vo: "dict_get fees ''otherCost'' JNull = Inr vo"
      "\<not> truthy vo \<or> (\<exists>x. num_of vo = Inr x)"
  shows "pct_field fees ''managementFee'' 0.15 = Inr (fees_management_fee fi)"
    and "pct_field fees ''custodianFee'' 0.05 = Inr (fees_custody_fee fi)"
    and "pct_field fees ''distributionFee'' 0 = Inr (fees_sales_service_fee fi)"
    and "pct_field fees ''tradeCost'' 0 = Inr (fees_transaction_cost fi)"
    and "pct_field fees ''otherCost'' 0 = Inr (fees_other_fees fi)"
proof -
  have all: "pct_field fees ''managementFee'' 0.15 = Inr (fees_management_fee fi)
      \<and> pct_field fees ''custodianFee'' 0.05 = Inr (fees_custody_fee fi)
      \<and> pct_field fees ''distributionFee'' 0 = Inr (fees_sales_service_fee fi)
      \<and> pct_field fees ''tradeCost'' 0 = Inr (fees_transaction_cost fi)
      \<and> pct_field fees ''otherCost'' 0 = Inr (fees_other_fees fi)"
  proof (cases "truthy fees")
    case True
    then have "fees \<noteq> JNull" by auto
    with fees have t0: "truthy fees_data" by (rule dict_get_truthy)
    obtain rm rc rs rt ro where
      "pct_field fees ''managementFee'' 0.15 = Inr rm"
      "pct_field fees ''custodianFee'' 0.05 = Inr rc"
      "pct_field fees ''distributionFee'' 0 = Inr rs"
      "pct_field fees ''tradeCost'' 0 = Inr rt"
      "pct_field fees ''otherCost'' 0 = Inr ro"
      using pct_field_readable [OF vm] pct_field_readable [OF vc] pct_field_readable [OF vs]
        pct_field_readable [OF vt] pct_field_readable [OF vo]
      by blast
    then obtain info where info: "fees_from fees = Inr info"
      using fees_from_readable by blast
    then have "extract_fees_data fees_data = Inr info"
      using t0 True fees by (simp add: extract_fees_data_def)
    with fi have "fi = info" by simp
    then show ?thesis using fees_from_Inr [OF info] by simp
  next
    case False
    then have "fi = default_fees"
      using extract_fees_data_default [OF fi] fees by blast
    moreover have "vm = JNull" "vc = JNull" "vs = JNull" "vt = JNull" "vo = JNull"
      using False vm(1) vc(1) vs(1) vt(1) vo(1) by (auto dest: falsy_dict_get)
    ultimately show ?thesis
      using vm(1) vc(1) vs(1) vt(1) vo(1) by (simp add: pct_field_def default_fees_def)
  qed
  from all show "pct_field fees ''managementFee'' 0.15 = Inr (fees_management_fee fi)"
    and "pct_field fees ''custodianFee'' 0.05 = Inr (fees_custody_fee fi)"
    and "pct_field fees ''distributionFee'' 0 = Inr (fees_sales_service_fee fi)"
    and "pct_field fees ''tradeCost'' 0 = Inr (fees_transaction_cost fi)"
    and "pct_field fees ''otherCost'' 0 = Inr (fees_other_fees fi)"
    by simp_all
qed

lemma fees_from_raises:
  assumes "dict_get fees key JNull = Inr v" "truthy v" "\<forall>x. num_of v \<noteq> Inr x"
    and "key \<in> set fee_keys"
  shows "\<exists>e. fees_from fees = Inl e"
proof (cases "fees_from fees")
  case (Inl e)
  then show ?thesis by blast
next
  case (Inr info)
  obtain e where "pct_field fees key 0.15 = Inl e" "pct_field fees key 0.05 = Inl e"
    "pct_field fees key 0 = Inl e"
    using assms(1-3) by (cases "num_of v") (auto simp: pct_field_def)
  then show ?thesis using fees_from_Inr [OF Inr] assms(4) by (auto simp: fee_keys_def)
qed

lemma fees_from_not_dict: "\<forall>kvs. fees \<noteq> JObj kvs \<Longrightarrow> \<exists>e. fees_from fees = Inl e"
  by (simp add: fees_from_def pct_field_not_dict)

lemma extract_fees_data_unreadable:
  assumes fi: "extract_fees_data fees_data = Inr fi"
    and h: "\<not> truthy fees_data
        \<or> (\<exists>fees. dict_get fees_data ''fees'' JNull = Inr fees
              \<and> ((\<forall>kvs. fees \<noteq> JObj kvs)
                 \<or> (\<exists>key v. key \<in> set fee_keys
                       \<and> dict_get fees key JNull = Inr v \<and> truthy v
                       \<and> (\<forall>x. num_of v \<noteq> Inr x))))"
  shows "fi = default_fees"
proof (rule extract_fees_data_default [OF fi])
  from h show "\<not> truthy fees_data
       \<or> (\<exists>fees. dict_get fees_data ''fees'' JNull = Inr fees
             \<and> (\<not> truthy fees \<or> (\<exists>e. fees_from fees = Inl e)))"
    using fees_from_not_dict fees_from_raises by metis
qed

lemma round_half_even_close: "\<bar>real_of_int (round_half_even y) - y\<bar> \<le> 1 / 2"
proof -
  have "real_of_int \<lfloor>y\<rfloor> \<le> y" "y < real_of_int \<lfloor>y\<rfloor> + 1" by linarith+
  then show ?thesis
    unfolding round_half_even_def Let_def by (auto simp: abs_le_iff)
qed

lemma round2_close: "\<bar>round2 x - x\<bar> \<le> 1 / 200"
proof -
  have "\<bar>real_of_int (round_half_even (x * 100)) - x * 100\<bar> \<le> 1 / 2"
    by (rule round_half_even_close)
  then have "\<bar>real_of_int (round_half_even (x * 100)) / 100 - x\<bar> \<le> 1 / 200"
    by argo
  then show ?thesis by (simp only: round2_def)
qed

lemma opt_round2_num: "opt_round2 (JNum v) = Inr r \<Longrightarrow> r = Some (round2 v)"
  by (auto simp: opt_round2_def)

lemma demo_day_end:
  "day_end_get demo_performance ''returns'' ''YTD'' = Inr (JNum 4.12)"
  "day_end_get demo_performance ''benchmarkReturns'' ''YTD'' = Inr (JNum 9.19)"
  "day_end_get demo_performance_no_benchmark ''returns'' ''YTD'' = Inr (JNum 4.12)"
  "day_end_get demo_performance_no_benchmark ''benchmarkReturns'' ''YTD'' = Inr JNull"
  by (simp_all add: day_end_get_def demo_performance_def demo_performance_no_benchmark_def
      demo_returns_def)

text \<open>
  Two more providers, as \<open>demo_http\<close> except for the fee endpoint: one reports a fee
  block with only the custody fee and the trade cost, the other answers the fee request
  with status 500.
\<close>

definition demo_sparse_fee_table :: json where
  "demo_sparse_fee_table = JObj [(''custodianFee'', JNum 0.1), (''tradeCost'', JNum 0.03)]"

definition demo_http_sparse_fees :: transport where
  "demo_http_sparse_fees fund_code endpoint =
     (if endpoint = ''fees'' then Body (wrap_ok (JObj [(''fees'', demo_sparse_fee_table)]))
      else demo_http fund_code endpoint)"

definition demo_http_no_fees :: transport where
  "demo_http_no_fees fund_code endpoint =
     (if endpoint = ''fees'' then HTTPStatusError 500 else demo_http fund_code endpoint)"

definition demo_entity_sparse_fees :: FundData where
  "demo_entity_sparse_fees = (demo_entity ''A'')\<lparr>management_fee := 0.0015,
     other_fees := Some 0, total_annual_fee := Some 0.0028\<rparr>"

definition demo_entity_no_fees :: FundData where
  "demo_entity_no_fees = (demo_entity ''A'')\<lparr>management_fee := 0.0015, custody_fee := 0.0005,
     transaction_cost := Some 0, other_fees := Some 0, total_annual_fee := Some 0.002\<rparr>"

lemma demo_fetch_fees:
  "fetch_api demo_http_sparse_fees ''A'' ''common-data'' = demo_common"
  "fetch_api demo_http_sparse_fees ''A'' ''performance'' = demo_performance"
  "fetch_api demo_http_sparse_fees ''A'' ''fees'' = JObj [(''fees'', demo_sparse_fee_table)]"
  "fetch_api demo_http_no_fees ''A'' ''common-data'' = demo_common"
  "fetch_api demo_http_no_fees ''A'' ''performance'' = demo_performance"
  "fetch_api demo_http_no_fees ''A'' ''fees'' = JNull"
  by (simp_all add: fetch_api_def demo_http_sparse_fees_def demo_http_no_fees_def
      demo_http_def wrap_ok_def)

lemma demo_get_fees:
  "get_fund_data demo_http_sparse_fees Map.empty ''A'' = Some demo_entity_sparse_fees"
  "get_fund_data demo_http_no_fees Map.empty ''A'' = Some demo_entity_no_fees"
  by (simp_all add: get_fund_data_def demo_fetch_fees build_fund_data_def choose_name_def
      extract_fees_data_def fees_from_def pct_field_def default_fees_def
      demo_sparse_fee_table_def performance_fields_def opt_round2_def startswith_def
      demo_entity_def demo_entity_sparse_fees_def demo_entity_no_fees_def
      round2_def round_half_even_def demo_common_def demo_performance_def demo_returns_def)

text \<open>
  C6, as stated, fails: the provider reports a management fee of 0.5 (percent) and a
  year-to-date return of 4.12 (percent); the entity holds the fee as the fraction 0.005
  and the return still as 4.12, not 0.0412.
\<close>

theorem uniform_unit_conversion_counterexample:
  "get_fund_data demo_http Map.empty ''A'' = Some (demo_entity ''A'')
   \<and> dict_get (fetch_api demo_http ''A'' ''fees'') ''fees'' JNull = Inr demo_fee_table
   \<and> dict_get demo_fee_table ''managementFee'' JNull = Inr (JNum 0.5)
   \<and> management_fee (demo_entity ''A'') = 0.5 / 100
   \<and> day_end_get (fetch_api demo_http ''A'' ''performance'') ''returns'' ''YTD'' = Inr (JNum 4.12)
   \<and> yearly_return (demo_entity ''A'') = Some 4.12
   \<and> yearly_return (demo_entity ''A'') \<noteq> Some (4.12 / 100)"
  by (simp add: demo_get demo_fetch demo_day_end demo_fees_def demo_fee_table_def
      demo_entity_def)

text \<open>
  C6, amended. Only fee fields are converted to fractions. Of a fetched entity:

  \<^item> the subscription and redemption fees are 0, and the total annual fee is the sum of
    the management, custody, sales-service, transaction-cost and other fees;

  \<^item> when each of the five values of the provider's fee block is a number or is falsy
    (absent, \<^verbatim>\<open>None\<close>, zero), each fee field is the number divided by 100, and a falsy
    value counts as 0.15 for the management fee, 0.05 for the custody fee and 0 for the
    other three before the division;

  \<^item> when the fee data is missing, the fee block is not a dict, or one of the five
    values is truthy and not a number, the fee fields are the defaults 0.0015, 0.0005, 0,
    0, 0 with total 0.002;

  \<^item> the year-to-date, 3-year and 5-year returns are the provider's numbers rounded to
    two decimals, and the excess return is the rounded difference of the fund's and the
    benchmark's year-to-date numbers: all in the provider's percent unit, since
    rounding moves a value by at most 0.005.
\<close>

theorem fees_fractional_returns_in_percent:
  assumes "get_fund_data http fund_names c = Some fund"
  shows "subscription_fee fund = Some 0 \<and> redemption_fee fund = Some 0
    \<and> (\<exists>s t ot. sales_service_fee fund = Some s \<and> transaction_cost fund = Some t
          \<and> other_fees fund = Some ot
          \<and> total_annual_fee fund
              = Some (management_fee fund + custody_fee fund + s + t + ot))
    \<and> (\<forall>fees vm vc vs vt vo.
          dict_get (fetch_api http c ''fees'') ''fees'' JNull = Inr fees
        \<and> dict_get fees ''managementFee'' JNull = Inr vm
        \<and> (\<not> truthy vm \<or> (\<exists>x. num_of vm = Inr x))
        \<and> dict_get fees ''custodianFee'' JNull = Inr vc
        \<and> (\<not> truthy vc \<or> (\<exists>x. num_of vc = Inr x))
        \<and> dict_get fees ''distributionFee'' JNull = Inr vs
        \<and> (\<not> truthy vs \<or> (\<exists>x. num_of vs = Inr x))
        \<and> dict_get fees ''tradeCost'' JNull = Inr vt
        \<and> (\<not> truthy vt \<or> (\<exists>x. num_of vt = Inr x))
        \<and> dict_get fees ''otherCost'' JNull = Inr vo
        \<and> (\<not> truthy vo \<or> (\<exists>x. num_of vo = Inr x))
        \<longrightarrow> (\<not> truthy vm \<longrightarrow> management_fee fund = 0.15 / 100)
          \<and> (\<forall>x. truthy vm \<and> num_of vm = Inr x \<longrightarrow> management_fee fund = x / 100)
          \<and> (\<not> truthy vc \<longrightarrow> custody_fee fund = 0.05 / 100)
          \<and> (\<forall>x. truthy vc \<and> num_of vc = Inr x \<longrightarrow> custody_fee fund = x / 100)
          \<and> (\<not> truthy vs \<longrightarrow> sales_service_fee fund = Some 0)
          \<and> (\<forall>x. truthy vs \<and> num_of vs = Inr x \<longrightarrow> sales_service_fee fund = Some (x / 100))
          \<and> (\<not> truthy vt \<longrightarrow> transaction_cost fund = Some 0)
          \<and> (\<forall>x. truthy vt \<and> num_of vt = Inr x \<longrightarrow> transaction_cost fund = Some (x / 100))
          \<and> (\<not> truthy vo \<longrightarrow> other_fees fund = Some 0)
          \<and> (\<forall>x. truthy vo \<and> num_of vo = Inr x \<longrightarrow> other_fees fund = Some (x / 100)))
    \<and> (\<not> truthy (fetch_api http c ''fees'')
        \<or> (\<exists>fees. dict_get (fetch_api http c ''fees'') ''fees'' JNull = Inr fees
              \<and> ((\<forall>kvs. fees \<noteq> JObj kvs)
                 \<or> (\<exists>key v. key \<in> set fee_keys
                       \<and> dict_get fees key JNull = Inr v \<and> truthy v
                       \<and> (\<forall>x. num_of v \<noteq> Inr x))))
        \<longrightarrow> management_fee fund = 0.15 / 100 \<and> custody_fee fund = 0.05 / 100
          \<and> sales_service_fee fund = Some 0 \<and> transaction_cost fund = Some 0
          \<and> other_fees fund = Some 0 \<and> total_annual_fee fund = Some (0.2 / 100))
    \<and> (\<forall>v. day_end_get (fetch_api http c ''performance'') ''returns'' ''YTD'' = Inr (JNum v)
          \<longrightarrow> yearly_return fund = Some (round2 v))
    \<and> (\<forall>v. day_end_get (fetch_api http c ''performance'') ''returns'' ''Y3'' = Inr (JNum v)
          \<longrightarrow> return_3year fund = Some (round2 v))
    \<and> (\<forall>v. day_end_get (fetch_api http c ''performance'') ''returns'' ''Y5'' = Inr (JNum v)
          \<longrightarrow> return_5year fund = Some (round2 v))
    \<and> (\<forall>y b. day_end_get (fetch_api http c ''performance'') ''returns'' ''YTD'' = Inr (JNum y)
            \<and> day_end_get (fetch_api http c ''performance'') ''benchmarkReturns'' ''YTD''
                = Inr (JNum b)
          \<longrightarrow> beats_benchmark_amount fund = Some (round2 (y - b)))
    \<and> (\<forall>v. \<bar>round2 v - v\<bar> \<le> 1 / 200)"
proof -
  obtain fi yr r3 r5 bb bba where
    fi: "extract_fees_data (fetch_api http c ''fees'') = Inr fi"
    and pf: "performance_fields (fetch_api http c ''performance'') = Inr (yr, r3, r5, bb, bba)"
    and fees: "management_fee fund = fees_management_fee fi"
      "custody_fee fund = fees_custody_fee fi"
      "subscription_fee fund = Some (fees_subscription_fee fi)"
      "redemption_fee fund = Some (fees_redemption_fee fi)"
      "sales_service_fee fund = Some (fees_sales_service_fee fi)"
      "transaction_cost fund = Some (fees_transaction_cost fi)"
      "other_fees fund = Some (fees_other_fees fi)"
      "total_annual_fee fund = Some (fees_total_annual_fee fi)"
    and rets: "yearly_return fund = yr" "return_3year fund = r3" "return_5year fund = r5"
      "beats_benchmark_amount fund = bba"
    using build_fund_data_Inr [OF get_fund_data_Some [OF assms]] by blast
  have fixed: "subscription_fee fund = Some 0 \<and> redemption_fee fund = Some 0"
    using extract_fees_data_sum [OF fi] fees by simp
  have total: "\<exists>s t ot. sales_service_fee fund = Some s \<and> transaction_cost fund = Some t
          \<and> other_fees fund = Some ot
          \<and> total_annual_fee fund
              = Some (management_fee fund + custody_fee fund + s + t + ot)"
    using extract_fees_data_sum [OF fi] fees by simp
  have converted: "(\<not> truthy vm \<longrightarrow> management_fee fund = 0.15 / 100)
          \<and> (\<forall>x. truthy vm \<and> num_of vm = Inr x \<longrightarrow> management_fee fund = x / 100)
          \<and> (\<not> truthy vc \<longrightarrow> custody_fee fund = 0.05 / 100)
          \<and> (\<forall>x. truthy vc \<and> num_of vc = Inr x \<longrightarrow> custody_fee fund = x / 100)
          \<and> (\<not> truthy vs \<longrightarrow> sales_service_fee fund = Some 0)
          \<and> (\<forall>x. truthy vs \<and> num_of vs = Inr x \<longrightarrow> sales_service_fee fund = Some (x / 100))
          \<and> (\<not> truthy vt \<longrightarrow> transaction_cost fund = Some 0)
          \<and> (\<forall>x. truthy vt \<and> num_of vt = Inr x \<longrightarrow> transaction_cost fund = Some (x / 100))
          \<and> (\<not> truthy vo \<longrightarrow> other_fees fund = Some 0)
          \<and> (\<forall>x. truthy vo \<and> num_of vo = Inr x \<longrightarrow> other_fees fund = Some (x / 100))"
    if H: "dict_get (fetch_api http c ''fees'') ''fees'' JNull = Inr fs
        \<and> dict_get fs ''managementFee'' JNull = Inr vm
        \<and> (\<not> truthy vm \<or> (\<exists>x. num_of vm = Inr x))
        \<and> dict_get fs ''custodianFee'' JNull = Inr vc
        \<and> (\<not> truthy vc \<or> (\<exists>x. num_of vc = Inr x))
        \<and> dict_get fs ''distributionFee'' JNull = Inr vs
        \<and> (\<not> truthy vs \<or> (\<exists>x. num_of vs = Inr x))
        \<and> dict_get fs ''tradeCost'' JNull = Inr vt
        \<and> (\<not> truthy vt \<or> (\<exists>x. num_of vt = Inr x))
        \<and> dict_get fs ''otherCost'' JNull = Inr vo
        \<and> (\<not> truthy vo \<or> (\<exists>x. num_of vo = Inr x))"
    for fs vm vc vs vt vo
  proof -
    note h = H [THEN conjunct1]
      H [THEN conjunct2, THEN conjunct1]
      H [THEN conjunct2, THEN conjunct2, THEN conjunct1]
      H [THEN conjunct2, THEN conjunct2, THEN conjunct2, THEN conjunct1]
      H [THEN conjunct2, THEN conjunct2, THEN conjunct2, THEN conjunct2, THEN conjunct1]
      H [THEN conjunct2, THEN conjunct2, THEN conjunct2, THEN conjunct2, THEN conjunct2,
         THEN conjunct1]
      H [THEN conjunct2, THEN conjunct2, THEN conjunct2, THEN conjunct2, THEN conjunct2,
         THEN conjunct2, THEN conjunct1]
      H [THEN conjunct2, THEN conjunct2, THEN conjunct2, THEN conjunct2, THEN conjunct2,
         THEN conjunct2, THEN conjunct2, THEN conjunct1]
      H [THEN conjunct2, THEN conjunct2, THEN conjunct2, THEN conjunct2, THEN conjunct2,
         THEN conjunct2, THEN conjunct2, THEN conjunct2, THEN conjunct1]
      H [THEN conjunct2, THEN conjunct2, THEN conjunct2, THEN conjunct2, THEN conjunct2,
         THEN conjunct2, THEN conjunct2, THEN conjunct2, THEN conjunct2, THEN conjunct1]
      H [THEN conjunct2, THEN conjunct2, THEN conjunct2, THEN conjunct2, THEN conjunct2,
         THEN conjunct2, THEN conjunct2, THEN conjunct2, THEN conjunct2, THEN conjunct2]
    note r = extract_fees_data_readable [OF fi h]
    show ?thesis
      using pct_field_reading [OF h(2) r(1)] pct_field_reading [OF h(4) r(2)]
        pct_field_reading [OF h(6) r(3)] pct_field_reading [OF h(8) r(4)]
        pct_field_reading [OF h(10) r(5)] fees
      by simp
  qed
  have defaults: "management_fee fund = 0.15 / 100 \<and> custody_fee fund = 0.05 / 100
          \<and> sales_service_fee fund = Some 0 \<and> transaction_cost fund = Some 0
          \<and> other_fees fund = Some 0 \<and> total_annual_fee fund = Some (0.2 / 100)"
    if h: "\<not> truthy (fetch_api http c ''fees'')
        \<or> (\<exists>fees. dict_get (fetch_api http c ''fees'') ''fees'' JNull = Inr fees
              \<and> ((\<forall>kvs. fees \<noteq> JObj kvs)
                 \<or> (\<exists>key v. key \<in> set fee_keys
                       \<and> dict_get fees key JNull = Inr v \<and> truthy v
                       \<and> (\<forall>x. num_of v \<noteq> Inr x))))"
  proof -
    have "fi = default_fees" using fi h by (rule extract_fees_data_unreadable)
    then show ?thesis using fees by (simp add: default_fees_def)
  qed
  have ytd: "yearly_return fund = Some (round2 v)"
    if g: "day_end_get (fetch_api http c ''performance'') ''returns'' ''YTD'' = Inr (JNum v)" for v
  proof -
    have "truthy (fetch_api http c ''performance'')"
      using g by (rule day_end_get_truthy) simp
    from performance_fields_returns [OF pf this] g rets show ?thesis
      by (auto dest: opt_round2_num)
  qed
  have y3: "return_3year fund = Some (round2 v)"
    if g: "day_end_get (fetch_api http c ''performance'') ''returns'' ''Y3'' = Inr (JNum v)" for v
  proof -
    have "truthy (fetch_api http c ''performance'')"
      using g by (rule day_end_get_truthy) simp
    from performance_fields_returns [OF pf this] g rets show ?thesis
      by (auto dest: opt_round2_num)
  qed
  have y5: "return_5year fund = Some (round2 v)"
    if g: "day_end_get (fetch_api http c ''performance'') ''returns'' ''Y5'' = Inr (JNum v)" for v
  proof -
    have "truthy (fetch_api http c ''performance'')"
      using g by (rule day_end_get_truthy) simp
    from performance_fields_returns [OF pf this] g rets show ?thesis
      by (auto dest: opt_round2_num)
  qed
  have excess: "beats_benchmark_amount fund = Some (round2 (y - b))"
    if G: "day_end_get (fetch_api http c ''performance'') ''returns'' ''YTD'' = Inr (JNum y)
         \<and> day_end_get (fetch_api http c ''performance'') ''benchmarkReturns'' ''YTD''
             = Inr (JNum b)"
    for y b
  proof -
    note g = G [THEN conjunct1] G [THEN conjunct2]
    have "truthy (fetch_api http c ''performance'')"
      using g(1) by (rule day_end_get_truthy) simp
    from performance_fields_excess(2) [OF pf this g] rets show ?thesis
      by auto
  qed
  show ?thesis
    apply (intro conjI)
    subgoal using fixed by simp
    subgoal using fixed by simp
    subgoal by (rule total)
    subgoal by (intro allI impI) (erule converted)
    subgoal by (rule impI) (erule defaults)
    subgoal by (intro allI impI) (erule ytd)
    subgoal by (intro allI impI) (erule y3)
    subgoal by (intro allI impI) (erule y5)
    subgoal by (intro allI impI) (erule excess)
    subgoal by (rule allI) (rule round2_close)
    done
qed


theorem fees_fractional_returns_in_percent_witness:
  "get_fund_data demo_http Map.empty ''A'' = Some (demo_entity ''A'')
   \<and> dict_get demo_fee_table ''managementFee'' JNull = Inr (JNum 0.5)
   \<and> management_fee (demo_entity ''A'') = 0.5 / 100
   \<and> custody_fee (demo_entity ''A'') = 0.1 / 100
   \<and> sales_service_fee (demo_entity ''A'') = Some 0
   \<and> transaction_cost (demo_entity ''A'') = Some (0.03 / 100)
   \<and> other_fees (demo_entity ''A'') = Some (0.02 / 100)
   \<and> subscription_fee (demo_entity ''A'') = Some 0
   \<and> redemption_fee (demo_entity ''A'') = Some 0
   \<and> yearly_return (demo_entity ''A'') = Some (round2 4.12)
   \<and> beats_benchmark_amount (demo_entity ''A'') = Some (round2 (4.12 - 9.19))
   \<and> round2 4.12 = 4.12
   \<and> get_fund_data demo_http_sparse_fees Map.empty ''A'' = Some demo_entity_sparse_fees
   \<and> dict_get demo_sparse_fee_table ''managementFee'' JNull = Inr JNull
   \<and> management_fee demo_entity_sparse_fees = 0.15 / 100
   \<and> custody_fee demo_entity_sparse_fees = 0.1 / 100
   \<and> other_fees demo_entity_sparse_fees = Some 0
   \<and> get_fund_data demo_http_no_fees Map.empty ''A'' = Some demo_entity_no_fees
   \<and> \<not> truthy (fetch_api demo_http_no_fees ''A'' ''fees'')
   \<and> management_fee demo_entity_no_fees = 0.15 / 100
   \<and> custody_fee demo_entity_no_fees = 0.05 / 100
   \<and> total_annual_fee demo_entity_no_fees = Some (0.2 / 100)"
proof -
  have g: "get_fund_data demo_http Map.empty ''A'' = Some (demo_entity ''A'')"
    "get_fund_data demo_http_sparse_fees Map.empty ''A'' = Some demo_entity_sparse_fees"
    "get_fund_data demo_http_no_fees Map.empty ''A'' = Some demo_entity_no_fees"
    by (simp_all add: demo_get demo_get_fees)
  note full = fees_fractional_returns_in_percent [OF g(1)]
  note sparse = fees_fractional_returns_in_percent [OF g(2)]
  note none = fees_fractional_returns_in_percent [OF g(3)]
  have table: "dict_get demo_fee_table ''managementFee'' JNull = Inr (JNum 0.5)"
    "dict_get demo_sparse_fee_table ''managementFee'' JNull = Inr JNull"
    by (simp_all add: demo_fee_table_def demo_sparse_fee_table_def)
  have num_ok: "\<not> truthy (JNum v) \<or> (\<exists>x. num_of (JNum v) = Inr x)" for v
    by simp
  have null_ok: "\<not> truthy JNull \<or> (\<exists>x. num_of JNull = Inr x)"
    by simp
  have full_block:
    "dict_get (fetch_api demo_http ''A'' ''fees'') ''fees'' JNull = Inr demo_fee_table
     \<and> dict_get demo_fee_table ''managementFee'' JNull = Inr (JNum 0.5)
     \<and> (\<not> truthy (JNum 0.5) \<or> (\<exists>x. num_of (JNum 0.5) = Inr x))
     \<and> dict_get demo_fee_table ''custodianFee'' JNull = Inr (JNum 0.1)
     \<and> (\<not> truthy (JNum 0.1) \<or> (\<exists>x. num_of (JNum 0.1) = Inr x))
     \<and> dict_get demo_fee_table ''distributionFee'' JNull = Inr (JNum 0)
     \<and> (\<not> truthy (JNum 0) \<or> (\<exists>x. num_of (JNum 0) = Inr x))
     \<and> dict_get demo_fee_table ''tradeCost'' JNull = Inr (JNum 0.03)
     \<and> (\<not> truthy (JNum 0.03) \<or> (\<exists>x. num_of (JNum 0.03) = Inr x))
     \<and> dict_get demo_fee_table ''otherCost'' JNull = Inr (JNum 0.02)
     \<and> (\<not> truthy (JNum 0.02) \<or> (\<exists>x. num_of (JNum 0.02) = Inr x))"
    by (intro conjI num_ok) (simp_all add: demo_fetch demo_fees_def demo_fee_table_def)
  have sparse_block:
    "dict_get (fetch_api demo_http_sparse_fees ''A'' ''fees'') ''fees'' JNull
       = Inr demo_sparse_fee_table
     \<and> dict_get demo_sparse_fee_table ''managementFee'' JNull = Inr JNull
     \<and> (\<not> truthy JNull \<or> (\<exists>x. num_of JNull = Inr x))
     \<and> dict_get demo_sparse_fee_table ''custodianFee'' JNull = Inr (JNum 0.1)
     \<and> (\<not> truthy (JNum 0.1) \<or> (\<exists>x. num_of (JNum 0.1) = Inr x))
     \<and> dict_get demo_sparse_fee_table ''distributionFee'' JNull = Inr JNull
     \<and> (\<not> truthy JNull \<or> (\<exists>x. num_of JNull = Inr x))
     \<and> dict_get demo_sparse_fee_table ''tradeCost'' JNull = Inr (JNum 0.03)
     \<and> (\<not> truthy (JNum 0.03) \<or> (\<exists>x. num_of (JNum 0.03) = Inr x))
     \<and> dict_get demo_sparse_fee_table ''otherCost'' JNull = Inr JNull
     \<and> (\<not> truthy JNull \<or> (\<exists>x. num_of JNull = Inr x))"
    by (intro conjI num_ok null_ok) (simp_all add: demo_fetch_fees demo_sparse_fee_table_def)
  note full_fees = full [THEN conjunct2, THEN conjunct2, THEN conjunct2, THEN conjunct1,
      rule_format, OF full_block]
  note sparse_fees = sparse [THEN conjunct2, THEN conjunct2, THEN conjunct2, THEN conjunct1,
      rule_format, OF sparse_block]
  have no_data: "\<not> truthy (fetch_api demo_http_no_fees ''A'' ''fees'')"
    by (simp add: demo_fetch_fees)
  note none_fees = none [THEN conjunct2, THEN conjunct2, THEN conjunct2, THEN conjunct2,
      THEN conjunct1, THEN mp, OF disjI1, OF no_data]
  have d: "day_end_get (fetch_api demo_http ''A'' ''performance'') ''returns'' ''YTD''
             = Inr (JNum 4.12)"
    "day_end_get (fetch_api demo_http ''A'' ''performance'') ''benchmarkReturns'' ''YTD''
             = Inr (JNum 9.19)"
    by (simp_all add: demo_fetch demo_day_end)
  have y: "yearly_return (demo_entity ''A'') = Some (round2 4.12)"
    using full [THEN conjunct2, THEN conjunct2, THEN conjunct2, THEN conjunct2,
        THEN conjunct2, THEN conjunct1, rule_format, OF d(1)] .
  have x: "beats_benchmark_amount (demo_entity ''A'') = Some (round2 (4.12 - 9.19))"
    using full [THEN conjunct2, THEN conjunct2, THEN conjunct2, THEN conjunct2,
        THEN conjunct2, THEN conjunct2, THEN conjunct2, THEN conjunct2, THEN conjunct1,
        rule_format, OF conjI, OF d] .
  have r: "round2 4.12 = 4.12"
    by (simp add: round2_def round_half_even_def)
  have tr: "truthy (JNum 0.5)" "truthy (JNum 0.1)" "truthy (JNum 0.03)" "truthy (JNum 0.02)"
    by simp_all
  have fa: "\<not> truthy (JNum 0)" "\<not> truthy JNull"
    by simp_all
  have nm: "num_of (JNum v) = Inr v" for v
    by simp
  note a = full_fees [THEN conjunct2, THEN conjunct1, rule_format, OF conjI, OF tr(1) nm]
    full_fees [THEN conjunct2, THEN conjunct2, THEN conjunct2, THEN conjunct1, rule_format,
      OF conjI, OF tr(2) nm]
    full_fees [THEN conjunct2, THEN conjunct2, THEN conjunct2, THEN conjunct2,
      THEN conjunct1, THEN mp, OF fa(1)]
    full_fees [THEN conjunct2, THEN conjunct2, THEN conjunct2, THEN conjunct2,
      THEN conjunct2, THEN conjunct2, THEN conjunct2, THEN conjunct1, rule_format, OF conjI,
      OF tr(3) nm]
    full_fees [THEN conjunct2, THEN conjunct2, THEN conjunct2, THEN conjunct2,
      THEN conjunct2, THEN conjunct2, THEN conjunct2, THEN conjunct2, THEN conjunct2,
      rule_format, OF conjI, OF tr(4) nm]
  note fixed = full [THEN conjunct1] full [THEN conjunct2, THEN conjunct1]
  note s = sparse_fees [THEN conjunct1, THEN mp, OF fa(2)]
    sparse_fees [THEN conjunct2, THEN conjunct2, THEN conjunct2, THEN conjunct1, rule_format,
      OF conjI, OF tr(2) nm]
    sparse_fees [THEN conjunct2, THEN conjunct2, THEN conjunct2, THEN conjunct2,
      THEN conjunct2, THEN conjunct2, THEN conjunct2, THEN conjunct2, THEN conjunct1,
      THEN mp, OF fa(2)]
  note n = none_fees [THEN conjunct1] none_fees [THEN conjunct2, THEN conjunct1]
    none_fees [THEN conjunct2, THEN conjunct2, THEN conjunct2, THEN conjunct2, THEN conjunct2]
  show ?thesis
    by (intro conjI) (fact g table a fixed y x r s no_data n)+
qed

section \<open>Excess return is derived only from two present returns\<close>

text \<open>
  C8. Of a fetched entity the beats-benchmark flag and the excess return are absent
  together. They are absent when the performance data is missing, or the fund's or the
  benchmark's year-to-date return is; an excess return that is present is the rounded
  difference of two present returns, and the flag says whether the fund's is the
  larger. An entity without excess return scores the neutral 5 on the benchmark
  dimension in every cohort, also as the entry of the breakdown.
\<close>

theorem excess_return_absent_scores_neutral:
  assumes "get_fund_data http fund_names c = Some fund"
  shows "(\<not> truthy (fetch_api http c ''performance'')
          \<or> day_end_get (fetch_api http c ''performance'') ''returns'' ''YTD'' = Inr JNull
          \<or> day_end_get (fetch_api http c ''performance'') ''benchmarkReturns'' ''YTD'' = Inr JNull
          \<longrightarrow> beats_benchmark fund = None \<and> beats_benchmark_amount fund = None)
    \<and> ((beats_benchmark fund = None) = (beats_benchmark_amount fund = None))
    \<and> (\<forall>x. beats_benchmark_amount fund = Some x \<longrightarrow>
          (\<exists>vy vb y b.
              day_end_get (fetch_api http c ''performance'') ''returns'' ''YTD'' = Inr vy
            \<and> day_end_get (fetch_api http c ''performance'') ''benchmarkReturns'' ''YTD'' = Inr vb
            \<and> vy \<noteq> JNull \<and> vb \<noteq> JNull \<and> num_of vy = Inr y \<and> num_of vb = Inr b
            \<and> x = round2 (y - b) \<and> beats_benchmark fund = Some (y > b)))
    \<and> (beats_benchmark_amount fund = None \<longrightarrow>
          score_beats_benchmark_relative fund cohort = 5
        \<and> (\<forall>strptime now k total_score scores k'.
              score_fund strptime now fund cohort_opt k = Inr ((total_score, scores), k')
              \<longrightarrow> scores Benchmark = Some 5))"
proof -
  obtain fi yr r3 r5 bb bba where
    pf: "performance_fields (fetch_api http c ''performance'') = Inr (yr, r3, r5, bb, bba)"
    and bb: "beats_benchmark fund = bb" "beats_benchmark_amount fund = bba"
    using build_fund_data_Inr [OF get_fund_data_Some [OF assms]] by blast
  have neutral: "score_beats_benchmark_relative fund fs = 5"
    if "beats_benchmark_amount fund = None" for fs
    using that by (simp add: score_beats_benchmark_relative_def)
  show ?thesis
  proof (cases "truthy (fetch_api http c ''performance'')")
    case False
    then have "bb = None" "bba = None"
      using pf by (simp_all add: performance_fields_falsy)
    then show ?thesis
      using bb neutral by (auto dest!: score_fund_entries(5))
  next
    case True
    from performance_fields_reads [OF pf True] obtain vy vb where
      vy: "day_end_get (fetch_api http c ''performance'') ''returns'' ''YTD'' = Inr vy"
      and vb: "day_end_get (fetch_api http c ''performance'') ''benchmarkReturns'' ''YTD'' = Inr vb"
      by blast
    note d = performance_fields_excess [OF pf True vy vb]
    show ?thesis
    proof (cases "vy \<noteq> JNull \<and> vb \<noteq> JNull")
      case False
      then have "bb = None" "bba = None" using d(1) by auto
      then show ?thesis
        using bb neutral by (auto dest!: score_fund_entries(5))
    next
      case present: True
      then obtain y b where
        "num_of vy = Inr y" "num_of vb = Inr b" "bb = Some (y > b)" "bba = Some (round2 (y - b))"
        using d(2) by auto
      then show ?thesis
        using bb vy vb present True by auto
    qed
  qed
qed

theorem excess_return_absent_scores_neutral_witness:
  "get_fund_data demo_http Map.empty ''B''
     = Some ((demo_entity ''B'')\<lparr>beats_benchmark := None, beats_benchmark_amount := None\<rparr>)
   \<and> day_end_get (fetch_api demo_http ''B'' ''performance'') ''benchmarkReturns'' ''YTD''
       = Inr JNull
   \<and> beats_benchmark ((demo_entity ''B'')\<lparr>beats_benchmark := None,
        beats_benchmark_amount := None\<rparr>) = None
   \<and> beats_benchmark_amount ((demo_entity ''B'')\<lparr>beats_benchmark := None,
        beats_benchmark_amount := None\<rparr>) = None
   \<and> score_beats_benchmark_relative
        ((demo_entity ''B'')\<lparr>beats_benchmark := None, beats_benchmark_amount := None\<rparr>)
        [demo_entity ''A'',
         (demo_entity ''B'')\<lparr>beats_benchmark := None, beats_benchmark_amount := None\<rparr>] = 5"
proof -
  have g: "get_fund_data demo_http Map.empty ''B''
     = Some ((demo_entity ''B'')\<lparr>beats_benchmark := None, beats_benchmark_amount := None\<rparr>)"
    by (rule demo_get)
  have d: "day_end_get (fetch_api demo_http ''B'' ''performance'') ''benchmarkReturns'' ''YTD''
       = Inr JNull"
    by (simp add: demo_fetch demo_day_end)
  show ?thesis
    using excess_return_absent_scores_neutral [OF g,
        of "[demo_entity ''A'',
             (demo_entity ''B'')\<lparr>beats_benchmark := None, beats_benchmark_amount := None\<rparr>]"]
      g d
    by simp
qed

end
